theory Spec2Isabelle
  imports Complex_Main "HOL-Library.Sublist" "HOL-Library.Multiset" "HOL-Library.Log_Nat"
begin

section \<open>Strings\<close>

text \<open>
  Python strings are modelled as \<^typ>\<open>string\<close>, a list of 8-bit characters read as code
  points below 128. \<open>str.lower\<close>, \<open>str.strip\<close> and the \<open>in\<close> operator on
  strings are modelled on that range: \<open>lower\<close> maps \<open>A\<close>..\<open>Z\<close> to
  \<open>a\<close>..\<open>z\<close>, \<open>strip\<close> removes the code points for which \<open>str.isspace\<close>
  holds (9 to 13, 28 to 32) at both ends, and \<open>str_contains sub s\<close> is \<open>sub in s\<close>.
\<close>

definition lower_char :: "char \<Rightarrow> char" where
  "lower_char c =
     (let n = (of_char c :: nat) in if 65 \<le> n \<and> n \<le> 90 then char_of (n + 32) else c)"

definition lower :: "string \<Rightarrow> string" where
  "lower s = map lower_char s"

definition isspace :: "char \<Rightarrow> bool" where
  "isspace c = (let n = (of_char c :: nat) in (9 \<le> n \<and> n \<le> 13) \<or> (28 \<le> n \<and> n \<le> 32))"

definition strip :: "string \<Rightarrow> string" where
  "strip s = rev (dropWhile isspace (rev (dropWhile isspace s)))"

text \<open>\<open>s.split(",")[0]\<close>: the text before the first comma (all of \<open>s\<close> without one).\<close>

definition split_comma_first :: "string \<Rightarrow> string" where
  "split_comma_first s = takeWhile (\<lambda>c. c \<noteq> CHR '','') s"

text \<open>\<open>sub in s\<close>: some suffix of \<open>s\<close> starts with \<open>sub\<close>.\<close>

fun str_contains :: "string \<Rightarrow> string \<Rightarrow> bool" where
  "str_contains sub [] = (sub = [])"
| "str_contains sub (c # cs) = (prefix sub (c # cs) \<or> str_contains sub cs)"

section \<open>Response models\<close>

text \<open>
  The pydantic models of \<open>app/models/responses.py\<close>. A Python \<open>float\<close> is modelled
  as an exact rational: sums, products and comparisons are those of the numbers written,
  without IEEE-754 rounding. The rounding itself, and the budget split as the code
  evaluates it on floats, are in the section on binary64 arithmetic.
\<close>

record flight_option =
  airline :: string
  departure_time :: string
  arrival_time :: string
  duration :: string
  price :: rat
  stops :: int

record hotel_option =
  name :: string
  location :: string
  price_per_night :: rat
  total_price :: rat
  rating :: rat
  amenities :: "string list"

record activity_option =
  act_name :: string
  description :: string
  cost :: rat
  act_duration :: string
  category :: string

section \<open>Mock catalog (\<open>services/mock_data.py\<close>)\<close>

definition tokyo_flights :: "flight_option list" where
  "tokyo_flights =
     [\<lparr>airline = ''Japan Airlines'', departure_time = ''2025-02-01 10:00'',
        arrival_time = ''2025-02-01 14:30'', duration = ''11h 30m'', price = 650, stops = 0\<rparr>,
      \<lparr>airline = ''ANA'', departure_time = ''2025-02-01 14:00'',
        arrival_time = ''2025-02-01 18:00'', duration = ''10h 00m'', price = 720, stops = 0\<rparr>,
      \<lparr>airline = ''United Airlines'', departure_time = ''2025-02-01 08:00'',
        arrival_time = ''2025-02-01 15:00'', duration = ''13h 00m'', price = 580, stops = 1\<rparr>,
      \<lparr>airline = ''Premium Business Class - ANA'', departure_time = ''2025-02-01 09:00'',
        arrival_time = ''2025-02-01 13:00'', duration = ''10h 00m'', price = 1250, stops = 0\<rparr>]"

definition paris_flights :: "flight_option list" where
  "paris_flights =
     [\<lparr>airline = ''Air France'', departure_time = ''2025-02-01 18:00'',
        arrival_time = ''2025-02-02 08:00'', duration = ''8h 00m'', price = 450, stops = 0\<rparr>]"

definition london_flights :: "flight_option list" where
  "london_flights =
     [\<lparr>airline = ''British Airways'', departure_time = ''2025-02-01 16:00'',
        arrival_time = ''2025-02-02 06:00'', duration = ''7h 00m'', price = 380, stops = 0\<rparr>]"

definition MOCK_FLIGHTS :: "(string \<times> flight_option list) list" where
  "MOCK_FLIGHTS =
     [(''tokyo'', tokyo_flights), (''paris'', paris_flights), (''london'', london_flights)]"

definition tokyo_hotels :: "hotel_option list" where
  "tokyo_hotels =
     [\<lparr>name = ''Shibuya Grand Hotel'', location = ''Shibuya, Tokyo'', price_per_night = 120,
        total_price = 0, rating = 42 / 10,
        amenities = [''WiFi'', ''Breakfast'', ''Gym'', ''City View'']\<rparr>,
      \<lparr>name = ''Shinjuku Budget Inn'', location = ''Shinjuku, Tokyo'', price_per_night = 85,
        total_price = 0, rating = 38 / 10, amenities = [''WiFi'', ''24/7 Desk'']\<rparr>,
      \<lparr>name = ''Tokyo Luxury Suites'', location = ''Ginza, Tokyo'', price_per_night = 250,
        total_price = 0, rating = 48 / 10,
        amenities = [''WiFi'', ''Breakfast'', ''Spa'', ''Pool'', ''Concierge'']\<rparr>,
      \<lparr>name = ''Asakusa Traditional Ryokan'', location = ''Asakusa, Tokyo'',
        price_per_night = 150, total_price = 0, rating = 45 / 10,
        amenities = [''WiFi'', ''Traditional Breakfast'', ''Onsen'', ''Tea Ceremony'']\<rparr>,
      \<lparr>name = ''Imperial Suite - Ritz-Carlton Tokyo'', location = ''Roppongi, Tokyo'',
        price_per_night = 450, total_price = 0, rating = 5,
        amenities = [''WiFi'', ''Butler Service'', ''Spa'', ''Michelin Restaurant'',
          ''Panoramic Views'', ''Private Lounge'']\<rparr>]"

definition paris_hotels :: "hotel_option list" where
  "paris_hotels =
     [\<lparr>name = ''Eiffel View Hotel'', location = ''7th Arrondissement, Paris'',
        price_per_night = 180, total_price = 0, rating = 45 / 10,
        amenities = [''WiFi'', ''Breakfast'', ''Eiffel Tower View'']\<rparr>]"

definition london_hotels :: "hotel_option list" where
  "london_hotels =
     [\<lparr>name = ''Westminster Inn'', location = ''Westminster, London'', price_per_night = 150,
        total_price = 0, rating = 43 / 10,
        amenities = [''WiFi'', ''Breakfast'', ''Central Location'']\<rparr>]"

definition MOCK_HOTELS :: "(string \<times> hotel_option list) list" where
  "MOCK_HOTELS =
     [(''tokyo'', tokyo_hotels), (''paris'', paris_hotels), (''london'', london_hotels)]"

definition tokyo_activities :: "(string \<times> activity_option list) list" where
  "tokyo_activities =
     [(''tech'',
       [\<lparr>act_name = ''Akihabara Tech District Tour'',
          description = ''Explore Tokyo's electronics and anime paradise'', cost = 30,
          act_duration = ''3 hours'', category = ''tech''\<rparr>,
        \<lparr>act_name = ''TeamLab Borderless Digital Art Museum'',
          description = ''Immersive digital art experience'', cost = 35,
          act_duration = ''2 hours'', category = ''tech''\<rparr>,
        \<lparr>act_name = ''Sony ExploraScience'',
          description = ''Interactive technology exhibition'', cost = 25,
          act_duration = ''2 hours'', category = ''tech''\<rparr>]),
      (''food'',
       [\<lparr>act_name = ''Tsukiji Outer Market Food Tour'',
          description = ''Fresh sushi and street food experience'', cost = 50,
          act_duration = ''3 hours'', category = ''food''\<rparr>,
        \<lparr>act_name = ''Ramen Making Class'',
          description = ''Learn to make authentic Japanese ramen'', cost = 65,
          act_duration = ''2.5 hours'', category = ''food''\<rparr>,
        \<lparr>act_name = ''Sushi Masterclass at Toyosu Market'',
          description = ''Professional sushi making experience'', cost = 80,
          act_duration = ''3 hours'', category = ''food''\<rparr>,
        \<lparr>act_name = ''Private Michelin Star Chef Experience'',
          description = ''Exclusive dining with 3-star Michelin chef'', cost = 250,
          act_duration = ''4 hours'', category = ''food''\<rparr>]),
      (''temples'',
       [\<lparr>act_name = ''Senso-ji Temple Visit'',
          description = ''Tokyo's oldest Buddhist temple in Asakusa'', cost = 0,
          act_duration = ''2 hours'', category = ''temples''\<rparr>,
        \<lparr>act_name = ''Meiji Shrine Experience'',
          description = ''Peaceful Shinto shrine in forest setting'', cost = 0,
          act_duration = ''1.5 hours'', category = ''temples''\<rparr>,
        \<lparr>act_name = ''Guided Temple Tour (Senso-ji + Meiji + Yasukuni)'',
          description = ''Comprehensive temple tour with expert guide'', cost = 45,
          act_duration = ''5 hours'', category = ''temples''\<rparr>]),
      (''nature'',
       [\<lparr>act_name = ''Mount Fuji Day Trip'',
          description = ''Scenic tour to Japan's iconic mountain'', cost = 120,
          act_duration = ''10 hours'', category = ''nature''\<rparr>,
        \<lparr>act_name = ''Shinjuku Gyoen National Garden'',
          description = ''Beautiful traditional Japanese garden'', cost = 5,
          act_duration = ''2 hours'', category = ''nature''\<rparr>]),
      (''sightseeing'',
       [\<lparr>act_name = ''Tokyo Skytree Observation Deck'',
          description = ''Panoramic views from tallest tower'', cost = 28,
          act_duration = ''1.5 hours'', category = ''sightseeing''\<rparr>,
        \<lparr>act_name = ''Shibuya Crossing & Harajuku Walking Tour'',
          description = ''Experience Tokyo's most vibrant districts'', cost = 20,
          act_duration = ''3 hours'', category = ''sightseeing''\<rparr>,
        \<lparr>act_name = ''Imperial Palace East Gardens'',
          description = ''Historic palace grounds and gardens'', cost = 0,
          act_duration = ''2 hours'', category = ''sightseeing''\<rparr>])]"

definition paris_activities :: "(string \<times> activity_option list) list" where
  "paris_activities =
     [(''sightseeing'',
       [\<lparr>act_name = ''Eiffel Tower Visit'', description = ''Iconic Parisian landmark'',
          cost = 30, act_duration = ''2 hours'', category = ''sightseeing''\<rparr>])]"

definition london_activities :: "(string \<times> activity_option list) list" where
  "london_activities =
     [(''sightseeing'',
       [\<lparr>act_name = ''Big Ben & Westminster Abbey'',
          description = ''Historic London landmarks'', cost = 25,
          act_duration = ''3 hours'', category = ''sightseeing''\<rparr>])]"

definition MOCK_ACTIVITIES :: "(string \<times> (string \<times> activity_option list) list) list" where
  "MOCK_ACTIVITIES =
     [(''tokyo'', tokyo_activities), (''paris'', paris_activities),
      (''london'', london_activities)]"

text \<open>\<open>d.get(key, default)\<close> on a dictionary written as an association list.\<close>

definition dict_get :: "('k \<times> 'v) list \<Rightarrow> 'k \<Rightarrow> 'v \<Rightarrow> 'v" where
  "dict_get d key dflt = (case map_of d key of Some v \<Rightarrow> v | None \<Rightarrow> dflt)"

text \<open>\<open>destination.lower().split(",")[0].strip()\<close>.\<close>

definition dest_key :: "string \<Rightarrow> string" where
  "dest_key destination = strip (split_comma_first (lower destination))"

text \<open>
  \<open>sorted(xs, key=k)\<close> is the stable \<^const>\<open>sort_key\<close>; with \<open>reverse=True\<close> the
  list is reversed, sorted and reversed again, which keeps equal keys in their original order.
\<close>

definition sorted_reverse :: "('a \<Rightarrow> rat) \<Rightarrow> 'a list \<Rightarrow> 'a list" where
  "sorted_reverse k xs = rev (sort_key k (rev xs))"

text \<open>
  The preference argument is a \<open>str\<close> that callers fill from the request's
  \<open>Optional[str]\<close> field, so it is a \<^typ>\<open>string option\<close>; \<open>None\<close> equals no tier
  and takes the \<open>else\<close> branch. \<open>MOCK_FLIGHTS["tokyo"]\<close> is \<^const>\<open>tokyo_flights\<close>.
\<close>

definition get_flights :: "string \<Rightarrow> string option \<Rightarrow> flight_option list" where
  "get_flights destination budget_preference =
     (let flights = dict_get MOCK_FLIGHTS (dest_key destination) tokyo_flights in
      if budget_preference = Some ''budget'' then take 2 (sort_key price flights)
      else if budget_preference = Some ''luxury'' then take 2 (sorted_reverse price flights)
      else flights)"

text \<open>
  \<open>get_hotels\<close> first overwrites \<open>total_price\<close> of every hotel of the destination with
  \<open>price_per_night * nights\<close>, then selects; \<open>[1:3]\<close> is \<open>take 2 (drop 1 _)\<close>. The
  hotels are the objects of the table itself; since every call rewrites \<open>total_price\<close>
  before it reads, what a call returns depends on its arguments only.
\<close>

definition get_hotels :: "string \<Rightarrow> int \<Rightarrow> string option \<Rightarrow> hotel_option list" where
  "get_hotels destination nights budget_preference =
     (let hotels0 = dict_get MOCK_HOTELS (dest_key destination) tokyo_hotels;
          hotels = map (\<lambda>h. h\<lparr>total_price := price_per_night h * of_int nights\<rparr>) hotels0 in
      if budget_preference = Some ''budget'' then take 2 (sort_key price_per_night hotels)
      else if budget_preference = Some ''luxury'' then
        take 2 (sorted_reverse price_per_night hotels)
      else take 2 (drop 1 (sort_key price_per_night hotels)))"

text \<open>
  \<open>get_activities\<close>: for each interest in order, at most two activities of that category
  (none for an unknown category); the concatenation is cut at \<open>max_count\<close>.
\<close>

fun collect_activities ::
  "(string \<times> activity_option list) list \<Rightarrow> string list \<Rightarrow> activity_option list" where
  "collect_activities activities_db [] = []"
| "collect_activities activities_db (interest # rest) =
     take 2 (dict_get activities_db (lower interest) []) @ collect_activities activities_db rest"

definition get_activities :: "string \<Rightarrow> string list \<Rightarrow> nat \<Rightarrow> activity_option list" where
  "get_activities destination interests max_count =
     (let activities_db = dict_get MOCK_ACTIVITIES (dest_key destination) tokyo_activities in
      take max_count (collect_activities activities_db interests))"

definition calculate_daily_food_budget :: "int \<Rightarrow> string option \<Rightarrow> rat" where
  "calculate_daily_food_budget duration_days budget_level =
     (let daily_rate =
        (if budget_level = Some ''budget'' then 30
         else if budget_level = Some ''mid-range'' then 60
         else if budget_level = Some ''luxury'' then 120
         else 60) in
      daily_rate * of_int duration_days)"

definition calculate_misc_costs :: "int \<Rightarrow> rat" where
  "calculate_misc_costs duration_days = of_int duration_days * 25"

section \<open>Hybrid data service (\<open>services/hybrid_data.py\<close>)\<close>

text \<open>
  The service reads \<open>data/cache/real_travel_data.json\<close> once; \<open>cached_data\<close> is
  \<open>None\<close> when the file is absent or unreadable. The file is run-time data, so the
  model takes its \<open>destinations\<close> table as a parameter, each flight and activity entry
  already converted to its option record and each hotel entry reduced to the three fields
  the conversion reads.
\<close>

record cached_hotel =
  ch_name :: string
  ch_location :: "string option"
  ch_chain_code :: string

record cached_destination =
  cd_flights :: "flight_option list"
  cd_hotels :: "cached_hotel list"
  cd_activities :: "activity_option list"

type_synonym cached_data = "(string \<Rightarrow> cached_destination option) option"

definition premium_chains :: "string list" where
  "premium_chains = [''HY'', ''IH'', ''MC'', ''RT'', ''SH'', ''WI'']"

definition estimate_hotel_price :: "string \<Rightarrow> string option \<Rightarrow> rat" where
  "estimate_hotel_price chain_code preference =
     (if preference = Some ''luxury'' then
        (if chain_code \<in> set premium_chains then 300 else 250)
      else if preference = Some ''budget'' then
        (if chain_code \<notin> set premium_chains then 80 else 120)
      else (if chain_code \<in> set premium_chains then 150 else 120))"

definition get_amenities_for_tier :: "string option \<Rightarrow> string list" where
  "get_amenities_for_tier preference =
     (if preference = Some ''luxury'' then
        [''WiFi'', ''Breakfast'', ''Spa'', ''Pool'', ''Concierge'', ''Room Service'']
      else if preference = Some ''budget'' then [''WiFi'', ''24/7 Desk'']
      else [''WiFi'', ''Breakfast'', ''Gym'', ''Business Center''])"

text \<open>
  The entry of the city in the cache, when the service uses cached data and the city is
  one of its destinations.
\<close>

definition cached_city :: "cached_data \<Rightarrow> string \<Rightarrow> cached_destination option" where
  "cached_city cached city_key =
     (case cached of None \<Rightarrow> None | Some destinations \<Rightarrow> destinations city_key)"

definition hybrid_get_flights ::
  "cached_data \<Rightarrow> string \<Rightarrow> string option \<Rightarrow> flight_option list" where
  "hybrid_get_flights cached destination preference =
     (case cached_city cached (dest_key destination) of
        Some entry \<Rightarrow>
          (if cd_flights entry \<noteq> [] then
             (if preference = Some ''luxury'' then filter (\<lambda>f. price f > 1000) (cd_flights entry)
              else if preference = Some ''budget'' then take 3 (sort_key price (cd_flights entry))
              else cd_flights entry)
           else get_flights destination preference)
      | None \<Rightarrow> get_flights destination preference)"

definition hybrid_get_hotels ::
  "cached_data \<Rightarrow> string \<Rightarrow> int \<Rightarrow> string option \<Rightarrow> hotel_option list" where
  "hybrid_get_hotels cached destination duration_days preference =
     (case cached_city cached (dest_key destination) of
        Some entry \<Rightarrow>
          (if cd_hotels entry \<noteq> [] then
             (let hotels = map (\<lambda>h.
                    let base_price = estimate_hotel_price (ch_chain_code h) preference in
                    \<lparr>name = ch_name h,
                     location = (case ch_location h of Some l \<Rightarrow> l | None \<Rightarrow> destination),
                     price_per_night = base_price,
                     total_price = base_price * of_int duration_days,
                     rating = 4,
                     amenities = get_amenities_for_tier preference\<rparr>) (cd_hotels entry) in
              if preference = Some ''budget'' then take 3 (sort_key price_per_night hotels)
              else if preference = Some ''luxury'' then
                take 3 (sorted_reverse price_per_night hotels)
              else take 3 (drop 2 (sort_key price_per_night hotels)))
           else get_hotels destination duration_days preference)
      | None \<Rightarrow> get_hotels destination duration_days preference)"

definition hybrid_get_activities ::
  "cached_data \<Rightarrow> string \<Rightarrow> string list \<Rightarrow> nat \<Rightarrow> activity_option list" where
  "hybrid_get_activities cached destination interests max_count =
     (case cached_city cached (dest_key destination) of
        Some entry \<Rightarrow>
          (if cd_activities entry \<noteq> [] then take max_count (cd_activities entry)
           else get_activities destination interests max_count)
      | None \<Rightarrow> get_activities destination interests max_count)"

section \<open>Requests, itineraries and responses (\<open>app/models\<close>)\<close>

record travel_request =
  destination :: string
  duration_days :: int
  budget :: rat
  travelers :: int
  interests :: "string list option"
  hotel_preference :: "string option"

datatype agent_status = SUCCESS | FAILURE | PARTIAL | ERROR

text \<open>\<open>cost_breakdown\<close>: the dictionary with the five fixed keys.\<close>

record breakdown =
  cb_flights :: rat
  accommodation :: rat
  cb_activities :: rat
  food :: rat
  misc :: rat

record travel_itinerary =
  it_destination :: string
  it_duration_days :: int
  total_budget :: rat
  actual_cost :: rat
  within_budget :: bool
  it_flights :: "flight_option option"
  it_hotel :: "hotel_option option"
  it_activities :: "activity_option list"
  cost_breakdown :: breakdown

text \<open>\<open>request.interests or ["sightseeing"]\<close>: \<open>None\<close> and the empty list are both falsy.\<close>

definition interests_or_sightseeing :: "travel_request \<Rightarrow> string list" where
  "interests_or_sightseeing request =
     (case interests request of
        None \<Rightarrow> [''sightseeing'']
      | Some xs \<Rightarrow> if xs = [] then [''sightseeing''] else xs)"

text \<open>
  The three cost lines every strategy writes the same way: \<open>price * travelers\<close> for a
  selected flight, the hotel's \<open>total_price\<close>, and the summed activity costs times the
  travelers; an absent flight or hotel costs 0.
\<close>

definition flight_cost_of :: "flight_option option \<Rightarrow> travel_request \<Rightarrow> rat" where
  "flight_cost_of selected_flight request =
     (case selected_flight of Some f \<Rightarrow> price f * of_int (travelers request) | None \<Rightarrow> 0)"

definition hotel_cost_of :: "hotel_option option \<Rightarrow> rat" where
  "hotel_cost_of selected_hotel =
     (case selected_hotel of Some h \<Rightarrow> total_price h | None \<Rightarrow> 0)"

definition activities_cost_of :: "activity_option list \<Rightarrow> travel_request \<Rightarrow> rat" where
  "activities_cost_of acts request = sum_list (map cost acts) * of_int (travelers request)"

section \<open>Selection parsing (\<open>multi_agent_orchestrator.py\<close>)\<close>

text \<open>
  \<open>_parse_flight_from_response\<close>: the \<open>for\<close> loop returns at the first flight whose
  lower-cased airline occurs in the lower-cased response; after the loop,
  \<open>flights[0] if flights else None\<close>.
\<close>

fun parse_flight_loop :: "string \<Rightarrow> flight_option list \<Rightarrow> flight_option option" where
  "parse_flight_loop response_lower [] = None"
| "parse_flight_loop response_lower (flight # rest) =
     (if str_contains (lower (airline flight)) response_lower then Some flight
      else parse_flight_loop response_lower rest)"

definition parse_flight_from_response :: "string \<Rightarrow> flight_option list \<Rightarrow> flight_option option" where
  "parse_flight_from_response response flights =
     (let response_lower = lower response in
      case parse_flight_loop response_lower flights of
        Some flight \<Rightarrow> Some flight
      | None \<Rightarrow> (case flights of [] \<Rightarrow> None | first # _ \<Rightarrow> Some first))"

text \<open>\<open>_parse_hotel_from_response\<close>: the same loop over \<open>hotel.name\<close>.\<close>

fun parse_hotel_loop :: "string \<Rightarrow> hotel_option list \<Rightarrow> hotel_option option" where
  "parse_hotel_loop response_lower [] = None"
| "parse_hotel_loop response_lower (hotel # rest) =
     (if str_contains (lower (name hotel)) response_lower then Some hotel
      else parse_hotel_loop response_lower rest)"

definition parse_hotel_from_response :: "string \<Rightarrow> hotel_option list \<Rightarrow> hotel_option option" where
  "parse_hotel_from_response response hotels =
     (let response_lower = lower response in
      case parse_hotel_loop response_lower hotels of
        Some hotel \<Rightarrow> Some hotel
      | None \<Rightarrow> (case hotels of [] \<Rightarrow> None | first # _ \<Rightarrow> Some first))"

text \<open>
  \<open>_parse_activities_from_response\<close>: the loop appends each matching activity to
  \<open>selected\<close> and breaks once \<open>len(selected) >= 6\<close>; the result is \<open>selected\<close> when it
  is non-empty and \<open>activities[:6]\<close> otherwise.
\<close>

fun parse_activities_loop ::
  "string \<Rightarrow> activity_option list \<Rightarrow> activity_option list \<Rightarrow> activity_option list" where
  "parse_activities_loop response_lower [] selected = selected"
| "parse_activities_loop response_lower (activity # rest) selected =
     (if str_contains (lower (act_name activity)) response_lower then
        (let selected' = selected @ [activity] in
         if length selected' \<ge> 6 then selected'
         else parse_activities_loop response_lower rest selected')
      else parse_activities_loop response_lower rest selected)"

definition parse_activities_from_response ::
  "string \<Rightarrow> activity_option list \<Rightarrow> activity_option list" where
  "parse_activities_from_response response activities =
     (let selected = parse_activities_loop (lower response) activities [] in
      if selected \<noteq> [] then selected else take 6 activities)"

text \<open>The candidates a response names: the match test of the three parsers.\<close>

definition names_flight :: "string \<Rightarrow> flight_option \<Rightarrow> bool" where
  "names_flight response f = sublist (lower (airline f)) (lower response)"

definition names_hotel :: "string \<Rightarrow> hotel_option \<Rightarrow> bool" where
  "names_hotel response h = sublist (lower (name h)) (lower response)"

definition names_activity :: "string \<Rightarrow> activity_option \<Rightarrow> bool" where
  "names_activity response a = sublist (lower (act_name a)) (lower response)"

section \<open>Monolithic strategy (\<open>agents/single_agent.py\<close>)\<close>

text \<open>
  Messages are built from formatted numbers; the model keeps what a message reports as a
  value of \<open>notice\<close> instead of its text.
\<close>

datatype notice =
    Budget_exceeded rat rat
  | No_flights
  | No_accommodation
  | No_activities
  | Exception_text string

record single_agent_response =
  success :: bool
  status :: agent_status
  itinerary :: "travel_itinerary option"
  errors :: "notice list"
  warnings :: "notice list"

text \<open>
  \<open>_parse_agent_response\<close> ignores the model's text: first luxury flight, last hotel of
  the preference, up to ten activities; food and misc from the two daily-rate helpers.
\<close>

definition parse_agent_response ::
  "cached_data \<Rightarrow> string \<Rightarrow> travel_request \<Rightarrow> travel_itinerary" where
  "parse_agent_response cached agent_response request =
     (let flights = hybrid_get_flights cached (destination request) (Some ''luxury'');
          selected_flight = (case flights of [] \<Rightarrow> None | f # _ \<Rightarrow> Some f);
          hotels = hybrid_get_hotels cached (destination request) (duration_days request)
                     (hotel_preference request);
          selected_hotel = (if hotels = [] then None else Some (last hotels));
          acts = hybrid_get_activities cached (destination request)
                   (interests_or_sightseeing request) 10;
          flight_cost = flight_cost_of selected_flight request;
          hotel_cost = hotel_cost_of selected_hotel;
          activities_cost = activities_cost_of acts request;
          food_cost = calculate_daily_food_budget (duration_days request)
                        (hotel_preference request);
          misc_cost = calculate_misc_costs (duration_days request);
          total_cost = flight_cost + hotel_cost + activities_cost + food_cost + misc_cost in
      \<lparr>it_destination = destination request,
       it_duration_days = duration_days request,
       total_budget = budget request,
       actual_cost = total_cost,
       within_budget = (total_cost \<le> budget request),
       it_flights = selected_flight,
       it_hotel = selected_hotel,
       it_activities = take 5 acts,
       cost_breakdown = \<lparr>cb_flights = flight_cost, accommodation = hotel_cost,
         cb_activities = activities_cost, food = food_cost, misc = misc_cost\<rparr>\<rparr>)"

text \<open>
  \<open>plan_trip\<close>: \<open>bedrock\<close> is the outcome of \<open>_call_bedrock\<close>, \<open>Inl\<close> the text of the
  exception it raised. The timing and the fixed message of the response are left out.
\<close>

definition single_plan_trip ::
  "cached_data \<Rightarrow> string + string \<Rightarrow> travel_request \<Rightarrow> single_agent_response" where
  "single_plan_trip cached bedrock request =
     (case bedrock of
        Inl e \<Rightarrow>
          \<lparr>success = False, status = ERROR, itinerary = None,
           errors = [Exception_text e], warnings = []\<rparr>
      | Inr response \<Rightarrow>
          (let it = parse_agent_response cached response request;
               exceeded_budget = (actual_cost it > total_budget it);
               errors1 = (if exceeded_budget
                          then [Budget_exceeded (actual_cost it) (total_budget it)] else []);
               errors2 = errors1 @ (if it_flights it = None then [No_flights] else []);
               errors3 = errors2 @ (if it_hotel it = None then [No_accommodation] else []);
               warnings1 = (if length (it_activities it) = 0 then [No_activities] else []);
               st = (if errors3 \<noteq> [] then FAILURE
                     else if warnings1 \<noteq> [] then PARTIAL else SUCCESS) in
           \<lparr>success = True, status = st, itinerary = Some it,
            errors = errors3, warnings = warnings1\<rparr>))"

section \<open>Specialist-routed strategy (\<open>agents/multi_agent_orchestrator.py\<close>)\<close>

text \<open>
  \<open>MultiAgentResponse\<close> has no \<open>errors\<close> or \<open>warnings\<close> field; the model keeps
  \<open>success\<close>, \<open>status\<close> and the itinerary, and for a failed run what was raised.
\<close>

datatype failure = Raised string | AttributeError_None | ZeroDivisionError

record multi_agent_response =
  m_success :: bool
  m_status :: agent_status
  m_itinerary :: "travel_itinerary option"
  m_failure :: "failure option"

definition failed_response :: "failure \<Rightarrow> multi_agent_response" where
  "failed_response e =
     \<lparr>m_success = False, m_status = ERROR, m_itinerary = None, m_failure = Some e\<rparr>"

text \<open>
  The four \<open>route_request\<close> calls of \<open>plan_trip\<close>, in order: \<open>Inl\<close> the text of an
  exception, \<open>Inr\<close> the text \<open>_extract_response_text\<close> returns.
\<close>

record squad_replies =
  flight_reply :: "string + string"
  hotel_reply :: "string + string"
  activity_reply :: "string + string"
  budget_reply :: "string + string"

text \<open>
  Lines 293 to 303 and 346 to 363 of \<open>plan_trip\<close>: the costs, the allocation of the
  remaining budget with its percentage fallback, and the itinerary.
\<close>

definition plan_trip_itinerary ::
  "travel_request \<Rightarrow> flight_option option \<Rightarrow> hotel_option option \<Rightarrow> activity_option list \<Rightarrow>
   travel_itinerary" where
  "plan_trip_itinerary request selected_flight selected_hotel selected_activities =
     (let flight_cost = flight_cost_of selected_flight request;
          hotel_cost = hotel_cost_of selected_hotel;
          activities_cost = activities_cost_of selected_activities request;
          remaining = budget request - (flight_cost + hotel_cost + activities_cost);
          food_cost = (if remaining > 0 then remaining * (60 / 100)
                       else budget request * (15 / 100));
          misc_cost = (if remaining > 0 then remaining * (40 / 100)
                       else budget request * (10 / 100));
          total_cost = flight_cost + hotel_cost + activities_cost + food_cost + misc_cost in
      \<lparr>it_destination = destination request,
       it_duration_days = duration_days request,
       total_budget = budget request,
       actual_cost = total_cost,
       within_budget = (total_cost \<le> budget request),
       it_flights = selected_flight,
       it_hotel = selected_hotel,
       it_activities = selected_activities,
       cost_breakdown = \<lparr>cb_flights = flight_cost, accommodation = hotel_cost,
         cb_activities = activities_cost, food = food_cost, misc = misc_cost\<rparr>\<rparr>)"

text \<open>
  \<open>plan_trip\<close>. Any exception ends in the \<open>except\<close> branch: a failed
  \<open>route_request\<close>, the attribute read on \<open>None\<close> when a parser found no candidate
  (\<open>selected_flight.airline\<close>, \<open>selected_hotel.name\<close>), and the division by
  \<open>request.budget\<close> in the budget prompt.
\<close>

definition multi_plan_trip ::
  "cached_data \<Rightarrow> squad_replies \<Rightarrow> travel_request \<Rightarrow> multi_agent_response" where
  "multi_plan_trip cached replies request =
     (let flights = hybrid_get_flights cached (destination request) (Some ''mid-range'');
          hotels = hybrid_get_hotels cached (destination request) (duration_days request)
                     (hotel_preference request);
          acts = hybrid_get_activities cached (destination request)
                   (interests_or_sightseeing request) 10 in
      case flight_reply replies of Inl e \<Rightarrow> failed_response (Raised e)
      | Inr flight_text \<Rightarrow>
      (case parse_flight_from_response flight_text flights of
         None \<Rightarrow> failed_response AttributeError_None
       | Some selected_flight \<Rightarrow>
      (case hotel_reply replies of Inl e \<Rightarrow> failed_response (Raised e)
       | Inr hotel_text \<Rightarrow>
      (case parse_hotel_from_response hotel_text hotels of
         None \<Rightarrow> failed_response AttributeError_None
       | Some selected_hotel \<Rightarrow>
      (case activity_reply replies of Inl e \<Rightarrow> failed_response (Raised e)
       | Inr activity_text \<Rightarrow>
      (let selected_activities = parse_activities_from_response activity_text acts;
           it = plan_trip_itinerary request (Some selected_flight) (Some selected_hotel)
                  selected_activities in
       if budget request = 0 then failed_response ZeroDivisionError
       else (case budget_reply replies of Inl e \<Rightarrow> failed_response (Raised e)
             | Inr budget_text \<Rightarrow>
                 \<lparr>m_success = True, m_status = SUCCESS, m_itinerary = Some it,
                  m_failure = None\<rparr>)))))))"

text \<open>
  Lines 589 to 632 of \<open>plan_trip_stream\<close>: the same costs, the remaining budget split
  60/40 with no test of its sign, and the itinerary.
\<close>

definition plan_trip_stream_itinerary ::
  "travel_request \<Rightarrow> flight_option option \<Rightarrow> hotel_option option \<Rightarrow> activity_option list \<Rightarrow>
   travel_itinerary" where
  "plan_trip_stream_itinerary request selected_flight selected_hotel selected_activities =
     (let flight_cost = flight_cost_of selected_flight request;
          hotel_cost = hotel_cost_of selected_hotel;
          activities_cost = activities_cost_of selected_activities request;
          remaining = budget request - (flight_cost + hotel_cost + activities_cost);
          food_cost = remaining * (60 / 100);
          misc_cost = remaining * (40 / 100);
          total_cost = flight_cost + hotel_cost + activities_cost + food_cost + misc_cost;
          is_within = (total_cost \<le> budget request) in
      \<lparr>it_destination = destination request,
       it_duration_days = duration_days request,
       total_budget = budget request,
       actual_cost = total_cost,
       within_budget = is_within,
       it_flights = selected_flight,
       it_hotel = selected_hotel,
       it_activities = selected_activities,
       cost_breakdown = \<lparr>cb_flights = flight_cost, accommodation = hotel_cost,
         cb_activities = activities_cost, food = food_cost, misc = misc_cost\<rparr>\<rparr>)"

text \<open>
  \<open>plan_trip_stream\<close>, its terminal event: \<open>bedrock\<close> is the outcome of the streaming
  call, \<open>Inr\<close> the concatenated text. The log events before it are left out.
\<close>

definition multi_plan_trip_stream ::
  "cached_data \<Rightarrow> string + string \<Rightarrow> travel_request \<Rightarrow> multi_agent_response" where
  "multi_plan_trip_stream cached bedrock request =
     (let flights = hybrid_get_flights cached (destination request) (hotel_preference request);
          hotels = hybrid_get_hotels cached (destination request) (duration_days request)
                     (hotel_preference request);
          acts = hybrid_get_activities cached (destination request)
                   (interests_or_sightseeing request) 10 in
      case bedrock of Inl e \<Rightarrow> failed_response (Raised e)
      | Inr response_text \<Rightarrow>
          (let selected_flight = parse_flight_from_response response_text flights;
               selected_hotel = parse_hotel_from_response response_text hotels;
               selected_activities = parse_activities_from_response response_text acts in
           \<lparr>m_success = True, m_status = SUCCESS,
            m_itinerary = Some (plan_trip_stream_itinerary request selected_flight
                                  selected_hotel selected_activities),
            m_failure = None\<rparr>))"

section \<open>Tool-based strategy (\<open>agents/strands_orchestrator.py\<close>)\<close>

text \<open>The JSON object the \<open>calculate_budget_breakdown\<close> tool returns.\<close>

record budget_breakdown =
  bb_flights :: rat
  bb_accommodation :: rat
  bb_activities :: rat
  bb_food :: rat
  bb_misc :: rat
  bb_total_cost :: rat
  bb_within_budget :: bool

definition calculate_budget_breakdown :: "rat \<Rightarrow> rat \<Rightarrow> rat \<Rightarrow> rat \<Rightarrow> budget_breakdown" where
  "calculate_budget_breakdown budget_total flight_cost hotel_cost activities_cost =
     (let remaining = budget_total - (flight_cost + hotel_cost + activities_cost);
          food_cost = remaining * (60 / 100);
          misc_cost = remaining * (40 / 100);
          total_cost = flight_cost + hotel_cost + activities_cost + food_cost + misc_cost;
          is_within = (total_cost \<le> budget_total) in
      \<lparr>bb_flights = flight_cost, bb_accommodation = hotel_cost, bb_activities = activities_cost,
       bb_food = food_cost, bb_misc = misc_cost, bb_total_cost = total_cost,
       bb_within_budget = is_within\<rparr>)"

text \<open>
  \<open>StrandsOrchestrator.plan_trip_stream\<close>, its terminal event: \<open>coordinator\<close> is the
  outcome of the agent run, whose text is not read; the itinerary takes the first flight
  and hotel of the lookups and the first six activities.
\<close>

definition strands_itinerary :: "cached_data \<Rightarrow> travel_request \<Rightarrow> travel_itinerary" where
  "strands_itinerary cached request =
     (let flights = hybrid_get_flights cached (destination request) (hotel_preference request);
          hotels = hybrid_get_hotels cached (destination request) (duration_days request)
                     (hotel_preference request);
          acts = hybrid_get_activities cached (destination request)
                   (interests_or_sightseeing request) 6;
          selected_flight = (case flights of [] \<Rightarrow> None | f # _ \<Rightarrow> Some f);
          selected_hotel = (case hotels of [] \<Rightarrow> None | h # _ \<Rightarrow> Some h);
          selected_activities = take 6 acts;
          flight_cost = flight_cost_of selected_flight request;
          hotel_cost = hotel_cost_of selected_hotel;
          activities_cost = activities_cost_of selected_activities request;
          remaining = budget request - (flight_cost + hotel_cost + activities_cost);
          food_cost = remaining * (60 / 100);
          misc_cost = remaining * (40 / 100);
          total_cost = flight_cost + hotel_cost + activities_cost + food_cost + misc_cost;
          is_within = (total_cost \<le> budget request) in
      \<lparr>it_destination = destination request,
       it_duration_days = duration_days request,
       total_budget = budget request,
       actual_cost = total_cost,
       within_budget = is_within,
       it_flights = selected_flight,
       it_hotel = selected_hotel,
       it_activities = selected_activities,
       cost_breakdown = \<lparr>cb_flights = flight_cost, accommodation = hotel_cost,
         cb_activities = activities_cost, food = food_cost, misc = misc_cost\<rparr>\<rparr>)"

definition strands_plan_trip_stream ::
  "cached_data \<Rightarrow> string + string \<Rightarrow> travel_request \<Rightarrow> multi_agent_response" where
  "strands_plan_trip_stream cached coordinator request =
     (case coordinator of Inl e \<Rightarrow> failed_response (Raised e)
      | Inr response \<Rightarrow>
          \<lparr>m_success = True, m_status = SUCCESS,
           m_itinerary = Some (strands_itinerary cached request), m_failure = None\<rparr>)"

section \<open>Binary64 arithmetic\<close>

text \<open>
  A Python \<open>float\<close> is an IEEE-754 binary64 number, and \<open>+\<close>, \<open>-\<close> and \<open>*\<close> on
  floats return the exact result rounded to the nearest such number, ties going to the even
  significand. \<open>binary64 x\<close> is that rounding of a rational \<open>x\<close>: to 53 significant
  bits, with no bound on the exponent, so overflow, subnormal numbers, infinities and NaN
  are left out. A decimal literal such as \<open>0.60\<close> denotes \<open>binary64\<close> of its value.
\<close>

text \<open>The integer nearest to \<open>x\<close>, the even one of the two when \<open>x\<close> lies half-way.\<close>


definition round_half_even :: "rat \<Rightarrow> int" where
  "round_half_even x =
     (let n = \<lfloor>x\<rfloor>; d = x - of_int n in
      if d < 1 / 2 then n else if 1 / 2 < d then n + 1 else if even n then n else n + 1)"

text \<open>The exponent \<open>e\<close> of a positive \<open>x\<close>: \<open>2 ^ e \<le> x < 2 ^ (e + 1)\<close>.\<close>

definition floor_log2 :: "rat \<Rightarrow> int" where
  "floor_log2 x = (if 1 \<le> x then bitlen \<lfloor>x\<rfloor> - 1 else - bitlen (\<lceil>1 / x\<rceil> - 1))"









section \<open>Mandate-based strategy (\<open>agents/ap2_orchestrator.py\<close>)\<close>

text \<open>
  Identifiers, signatures and hashes come from \<open>uuid4\<close>, the clock and SHA-256; the
  model takes them as given values. Timestamps and descriptive texts are left out. A log
  event keeps its agent name and the fixed head of its message.
\<close>

record ap2_nonces =
  new_intent_id :: string
  new_cart_id :: string
  new_mandate_id :: string
  new_signature :: string
  new_receipt_id :: string
  new_blockchain_hash :: string

record intent_mandate =
  intent_id :: string
  estimated_total :: rat

record cart_item =
  vendor :: string
  quantity :: int
  unit_price :: rat
  ci_total_price :: rat

record cart_mandate =
  cart_id :: string
  cm_intent_id :: string
  cm_items :: "cart_item list"
  subtotal :: rat
  taxes :: rat
  fees :: rat
  cm_total :: rat

record payment_mandate =
  mandate_id :: string
  pm_cart_id :: string
  amount :: rat
  currency :: string
  payment_method :: string
  signature :: string
  pm_status :: string

record transaction_receipt =
  receipt_id :: string
  tr_mandate_id :: string
  amount_paid :: rat
  tr_status :: string
  blockchain_hash :: string

record ap2_result =
  res_total_cost :: rat
  res_receipt :: transaction_receipt
  res_payment_mandate :: payment_mandate
  res_wallet_balance :: rat

datatype event =
    Log_event string string
  | Error_event string
  | Result_event ap2_result

record ap2_orchestrator =
  mock_wallet_balance :: rat
  execution_logs :: "event list"

definition log_event :: "string \<Rightarrow> string \<Rightarrow> ap2_orchestrator \<Rightarrow> ap2_orchestrator" where
  "log_event agent_name message self =
     self\<lparr>execution_logs := execution_logs self @ [Log_event agent_name message]\<rparr>"

definition create_intent_mandate ::
  "ap2_nonces \<Rightarrow> travel_request \<Rightarrow> ap2_orchestrator \<Rightarrow> intent_mandate \<times> ap2_orchestrator" where
  "create_intent_mandate nonces request self =
     (let intent = \<lparr>intent_id = new_intent_id nonces, estimated_total = budget request\<rparr> in
      (intent, log_event ''AP2 Intent Mandate'' ''Step 1/5: Intent declared'' self))"

text \<open>
  \<open>_build_cart_mandate\<close> raises where Python does: the division by
  \<open>request.travelers\<close>, then \<open>request.hotel_preference.title()\<close> on \<open>None\<close>, then the
  division by \<open>request.duration_days\<close>.
\<close>

definition build_cart_mandate ::
  "ap2_nonces \<Rightarrow> intent_mandate \<Rightarrow> travel_request \<Rightarrow> ap2_orchestrator \<Rightarrow>
   failure + (cart_mandate \<times> ap2_orchestrator)" where
  "build_cart_mandate nonces intent request self =
     (let flight_price = budget request * (35 / 100);
          hotel_price = budget request * (30 / 100);
          activities_price = budget request * (20 / 100) in
      if travelers request = 0 then Inl ZeroDivisionError
      else if hotel_preference request = None then Inl AttributeError_None
      else if duration_days request = 0 then Inl ZeroDivisionError
      else
        (let cart_items =
               [\<lparr>vendor = ''GlobalAir'', quantity = travelers request,
                  unit_price = flight_price / of_int (travelers request),
                  ci_total_price = flight_price\<rparr>,
                \<lparr>vendor = ''TravelStay'', quantity = duration_days request,
                  unit_price = hotel_price / of_int (duration_days request),
                  ci_total_price = hotel_price\<rparr>,
                \<lparr>vendor = ''LocalExperiences'', quantity = 1,
                  unit_price = activities_price, ci_total_price = activities_price\<rparr>];
             sub = sum_list (map ci_total_price cart_items);
             tax = sub * (8 / 100);
             fee = 25;
             cart = \<lparr>cart_id = new_cart_id nonces, cm_intent_id = intent_id intent,
                      cm_items = cart_items, subtotal = sub, taxes = tax, fees = fee,
                      cm_total = sub + tax + fee\<rparr> in
         Inr (cart, log_event ''AP2 Cart Mandate'' ''Step 2/5: Cart created'' self)))"

definition request_payment_authorization ::
  "ap2_nonces \<Rightarrow> cart_mandate \<Rightarrow> ap2_orchestrator \<Rightarrow> payment_mandate \<times> ap2_orchestrator" where
  "request_payment_authorization nonces cart self =
     (let authorized = (cm_total cart \<le> mock_wallet_balance self);
          mandate = \<lparr>mandate_id = new_mandate_id nonces, pm_cart_id = cart_id cart,
                      amount = cm_total cart, currency = ''USD'',
                      payment_method = ''AP2_Wallet'', signature = new_signature nonces,
                      pm_status = (if authorized then ''authorized'' else ''denied'')\<rparr> in
      if authorized then
        (mandate, log_event ''AP2 Payment Mandate'' ''Step 3/5: Payment authorized'' self)
      else
        (mandate, log_event ''AP2 Payment Mandate'' ''Step 3/5: Payment denied'' self))"

definition execute_transaction ::
  "ap2_nonces \<Rightarrow> payment_mandate \<Rightarrow> cart_mandate \<Rightarrow> ap2_orchestrator \<Rightarrow>
   transaction_receipt \<times> ap2_orchestrator" where
  "execute_transaction nonces mandate cart self =
     (let receipt = \<lparr>receipt_id = new_receipt_id nonces, tr_mandate_id = mandate_id mandate,
                      amount_paid = amount mandate, tr_status = ''completed'',
                      blockchain_hash = new_blockchain_hash nonces\<rparr>;
          self1 = log_event ''AP2 Transaction'' ''Step 4/5: Transaction executed'' self;
          self2 = self1\<lparr>mock_wallet_balance := mock_wallet_balance self1 - amount mandate\<rparr>;
          self3 = log_event ''AP2 Receipt'' ''Step 5/5: Receipt generated'' self2 in
      (receipt, self3))"

text \<open>
  \<open>plan_trip_with_ap2_stream\<close>: the events yielded, in order, and the orchestrator
  afterwards. After each step the collected logs are yielded and \<open>execution_logs\<close> is
  emptied; an exception yields one error event from the \<open>except\<close> branch.
\<close>

definition flush_logs :: "event list \<Rightarrow> ap2_orchestrator \<Rightarrow> event list \<times> ap2_orchestrator" where
  "flush_logs yielded self = (yielded @ execution_logs self, self\<lparr>execution_logs := []\<rparr>)"

definition plan_trip_with_ap2_stream ::
  "ap2_nonces \<Rightarrow> travel_request \<Rightarrow> ap2_orchestrator \<Rightarrow> event list \<times> ap2_orchestrator" where
  "plan_trip_with_ap2_stream nonces request self =
     (let self0 = self\<lparr>execution_logs := []\<rparr>;
          self1 = log_event ''AP2 Protocol'' ''Initiating AP2 Autonomous Payment Protocol'' self0;
          (out1, self2) = flush_logs [] self1;
          (intent, self3) = create_intent_mandate nonces request self2;
          (out2, self4) = flush_logs out1 self3 in
      case build_cart_mandate nonces intent request self4 of
        Inl e \<Rightarrow> (out2 @ [Error_event ''AP2 orchestration error''], self4)
      | Inr (cart, self5) \<Rightarrow>
          (let (out3, self6) = flush_logs out2 self5;
               (mandate, self7) = request_payment_authorization nonces cart self6;
               (out4, self8) = flush_logs out3 self7 in
           if pm_status mandate \<noteq> ''authorized'' then
             (out4 @ [Error_event ''Payment authorization denied: Insufficient funds''], self8)
           else
             (let (receipt, self9) = execute_transaction nonces mandate cart self8;
                  (out5, self10) = flush_logs out4 self9;
                  result = \<lparr>res_total_cost = cm_total cart, res_receipt = receipt,
                             res_payment_mandate = mandate,
                             res_wallet_balance = mock_wallet_balance self10\<rparr> in
              (out5 @ [Result_event result], self10))))"

text \<open>The log events of \<open>_execute_transaction\<close>.\<close>

fun is_transaction_log :: "event \<Rightarrow> bool" where
  "is_transaction_log (Log_event agent_name message) =
     (agent_name = ''AP2 Transaction'' \<or> agent_name = ''AP2 Receipt'')"
| "is_transaction_log (Error_event message) = False"
| "is_transaction_log (Result_event result) = False"

section \<open>Example requests\<close>

text \<open>
  A request whose flight, hotel and activity costs (1300 + 600 + 96 with the mock catalog)
  exceed its budget of 1000.
\<close>

definition shortfall_request :: travel_request where
  "shortfall_request =
     \<lparr>destination = ''Tokyo, Japan'', duration_days = 5, budget = 1000, travelers = 2,
      interests = Some [''sightseeing''], hotel_preference = Some ''mid-range''\<rparr>"

text \<open>The same trip with a budget of 3000, which leaves a positive remainder.\<close>

definition ample_request :: travel_request where
  "ample_request = shortfall_request\<lparr>budget := 3000\<rparr>"

definition silent_replies :: squad_replies where
  "silent_replies =
     \<lparr>flight_reply = Inr ''No preference.'', hotel_reply = Inr ''No preference.'',
      activity_reply = Inr ''No preference.'', budget_reply = Inr ''Looks fine.''\<rparr>"

text \<open>Ten activities of Tokyo, two for each of five interests.\<close>

definition tokyo_sample :: "activity_option list" where
  "tokyo_sample =
     get_activities ''Tokyo'' [''tech'', ''food'', ''temples'', ''nature'', ''sightseeing''] 10"

text \<open>A mandate flow on a wallet of 500; the cart of the trip above totals 943.\<close>

definition demo_nonces :: ap2_nonces where
  "demo_nonces =
     \<lparr>new_intent_id = ''intent_1'', new_cart_id = ''cart_1'', new_mandate_id = ''mandate_1'',
      new_signature = ''sig'', new_receipt_id = ''receipt_1'', new_blockchain_hash = ''hash''\<rparr>"

definition demo_intent :: intent_mandate where
  "demo_intent = \<lparr>intent_id = ''intent_1'', estimated_total = 1000\<rparr>"

definition poor_wallet :: ap2_orchestrator where
  "poor_wallet = \<lparr>mock_wallet_balance = 500, execution_logs = []\<rparr>"

definition demo_cart :: cart_mandate where
  "demo_cart =
     \<lparr>cart_id = ''cart_1'', cm_intent_id = ''intent_1'',
      cm_items =
        [\<lparr>vendor = ''GlobalAir'', quantity = 2, unit_price = 175, ci_total_price = 350\<rparr>,
         \<lparr>vendor = ''TravelStay'', quantity = 5, unit_price = 60, ci_total_price = 300\<rparr>,
         \<lparr>vendor = ''LocalExperiences'', quantity = 1, unit_price = 200,
           ci_total_price = 200\<rparr>],
      subtotal = 850, taxes = 68, fees = 25, cm_total = 943\<rparr>"

text \<open>
  The table entries \<open>get_flights\<close> and \<open>get_hotels\<close> select from: the destination's
  flights, and its hotels with \<open>total_price\<close> recomputed for the stay.
\<close>

abbreviation catalog_flights :: "string \<Rightarrow> flight_option list" where
  "catalog_flights d \<equiv> dict_get MOCK_FLIGHTS (dest_key d) tokyo_flights"

abbreviation catalog_hotels :: "string \<Rightarrow> int \<Rightarrow> hotel_option list" where
  "catalog_hotels d n \<equiv>
     map (\<lambda>h. h\<lparr>total_price := price_per_night h * of_int n\<rparr>)
       (dict_get MOCK_HOTELS (dest_key d) tokyo_hotels)"

section \<open>Substring test\<close>

lemma str_contains_sublist: "str_contains sub s = sublist sub s"
  by (induction s) (simp_all add: sublist_Cons_right)

lemma parse_flight_loop_find:
  "parse_flight_loop (lower response) flights = find (names_flight response) flights"
  by (induction flights) (simp_all add: names_flight_def str_contains_sublist)

lemma parse_hotel_loop_find:
  "parse_hotel_loop (lower response) hotels = find (names_hotel response) hotels"
  by (induction hotels) (simp_all add: names_hotel_def str_contains_sublist)

lemma parse_activities_loop_filter:
  "length selected < 6 \<Longrightarrow>
   parse_activities_loop (lower response) activities selected =
     take 6 (selected @ filter (names_activity response) activities)"
proof (induction activities arbitrary: selected)
  case Nil
  then show ?case by simp
next
  case (Cons a rest)
  show ?case
  proof (cases "names_activity response a")
    case False
    then show ?thesis
      using Cons by (simp add: names_activity_def str_contains_sublist)
  next
    case True
    show ?thesis
    proof (cases "length (selected @ [a]) \<ge> 6")
      case full: True
      with Cons.prems have "length selected = 5" by simp
      then show ?thesis
        using True by (simp add: names_activity_def str_contains_sublist)
    next
      case notfull: False
      then have "length (selected @ [a]) < 6" by simp
      from Cons.IH [OF this] show ?thesis
        using True notfull by (simp add: names_activity_def str_contains_sublist)
    qed
  qed
qed

section \<open>Selection parser: single selection\<close>

text \<open>
  C4. For every response text and candidate list, the flight parser and the hotel parser
  return the first candidate, in input order, whose airline or hotel name occurs as a
  case-insensitive substring of the response text; when no candidate's name occurs they
  return the first candidate of the list; and for an empty list they return \<open>None\<close>.
\<close>

theorem parse_single_selection:
  "parse_flight_from_response response flights =
     (case find (names_flight response) flights of
        Some f \<Rightarrow> Some f
      | None \<Rightarrow> (case flights of [] \<Rightarrow> None | first # rest \<Rightarrow> Some first))
   \<and> parse_hotel_from_response response hotels =
     (case find (names_hotel response) hotels of
        Some h \<Rightarrow> Some h
      | None \<Rightarrow> (case hotels of [] \<Rightarrow> None | first # rest \<Rightarrow> Some first))
   \<and> parse_flight_from_response response [] = None
   \<and> parse_hotel_from_response response [] = None"
  by (simp add: parse_flight_from_response_def parse_hotel_from_response_def
      parse_flight_loop_find parse_hotel_loop_find)

theorem parse_single_selection_witness:
  "parse_flight_from_response ''I recommend ANA: best value.'' tokyo_flights
     = Some (tokyo_flights ! 1)
   \<and> parse_hotel_from_response ''I recommend ANA: best value.'' tokyo_hotels
     = Some (tokyo_hotels ! 0)"
proof -
  have f: "find (names_flight ''I recommend ANA: best value.'') tokyo_flights
             = Some (tokyo_flights ! 1)"
    by code_simp
  have h: "find (names_hotel ''I recommend ANA: best value.'') tokyo_hotels = None"
    by code_simp
  have h0: "tokyo_hotels = (tokyo_hotels ! 0) # tl tokyo_hotels"
    by (simp add: tokyo_hotels_def)
  have "parse_hotel_from_response ''I recommend ANA: best value.'' tokyo_hotels
          = Some (tokyo_hotels ! 0)"
    using parse_single_selection [of "''I recommend ANA: best value.''" tokyo_flights
        tokyo_hotels] h
    by (subst (asm) (2) h0) simp
  then show ?thesis
    using parse_single_selection [of "''I recommend ANA: best value.''" tokyo_flights
        tokyo_hotels] f
    by simp
qed

section \<open>Selection parser: multiple selection\<close>

text \<open>
  C5. For every response text and activity list, the activity parser scans the candidates
  in input order and collects those whose name occurs as a case-insensitive substring of
  the response text, stopping once 6 are collected; when none matches it returns the first
  6 candidates of the list; an empty list gives an empty result.
\<close>

theorem parse_multi_selection:
  "parse_activities_from_response response acts =
     (let matches = filter (names_activity response) acts in
      if matches = [] then take 6 acts else take 6 matches)
   \<and> parse_activities_from_response response [] = []"
  by (simp add: parse_activities_from_response_def parse_activities_loop_filter Let_def)

text \<open>
  On ten candidates: a response naming two of them selects those two, in list order; a
  response naming all ten selects the first six; a response naming none selects the first
  six as well.
\<close>

theorem parse_multi_selection_witness:
  "length tokyo_sample = 10
   \<and> map act_name (parse_activities_from_response
         ''Book the Mount Fuji Day Trip, then the RAMEN MAKING CLASS.'' tokyo_sample)
       = [''Ramen Making Class'', ''Mount Fuji Day Trip'']
   \<and> parse_activities_from_response (concat (map act_name tokyo_sample)) tokyo_sample
       = take 6 tokyo_sample
   \<and> parse_activities_from_response ''Surprise me.'' tokyo_sample = take 6 tokyo_sample"
proof -
  let ?two = "''Book the Mount Fuji Day Trip, then the RAMEN MAKING CLASS.''"
  let ?all = "concat (map act_name tokyo_sample)"
  have n: "length tokyo_sample = 10"
    by code_simp
  have a: "map act_name (filter (names_activity ?two) tokyo_sample)
             = [''Ramen Making Class'', ''Mount Fuji Day Trip'']"
    by code_simp
  then have a': "filter (names_activity ?two) tokyo_sample \<noteq> []"
    by auto
  have a'': "length (filter (names_activity ?two) tokyo_sample) = 2"
    using arg_cong [OF a, of length] by simp
  have b: "filter (names_activity ''Surprise me.'') tokyo_sample = []"
    by code_simp
  have c: "filter (names_activity ?all) tokyo_sample = tokyo_sample"
    by code_simp
  have c': "tokyo_sample \<noteq> []"
    using n by auto
  show ?thesis
    using parse_multi_selection [of ?two tokyo_sample]
      parse_multi_selection [of ?all tokyo_sample]
      parse_multi_selection [of "''Surprise me.''" tokyo_sample] n a a' a'' b c c'
    by (simp add: Let_def)
qed

section \<open>Budget status\<close>

text \<open>
  C3. For every itinerary produced by any strategy, \<open>within_budget\<close> is true if and only
  if \<open>actual_cost \<le> total_budget\<close>; the comparison is not strict, so equal values
  give \<open>within_budget = True\<close>.
\<close>

theorem within_budget_iff_cost_le_budget:
  "(case itinerary (single_plan_trip cached bedrock request) of
      None \<Rightarrow> True
    | Some it \<Rightarrow> within_budget it = (actual_cost it \<le> total_budget it))
   \<and> (case m_itinerary (multi_plan_trip cached replies request) of
      None \<Rightarrow> True
    | Some it \<Rightarrow> within_budget it = (actual_cost it \<le> total_budget it))
   \<and> (case m_itinerary (multi_plan_trip_stream cached bedrock request) of
      None \<Rightarrow> True
    | Some it \<Rightarrow> within_budget it = (actual_cost it \<le> total_budget it))
   \<and> (case m_itinerary (strands_plan_trip_stream cached bedrock request) of
      None \<Rightarrow> True
    | Some it \<Rightarrow> within_budget it = (actual_cost it \<le> total_budget it))"
proof (intro conjI)
  show "case itinerary (single_plan_trip cached bedrock request) of
      None \<Rightarrow> True
    | Some it \<Rightarrow> within_budget it = (actual_cost it \<le> total_budget it)"
    by (simp add: single_plan_trip_def parse_agent_response_def Let_def split: sum.splits)
  show "case m_itinerary (multi_plan_trip cached replies request) of
      None \<Rightarrow> True
    | Some it \<Rightarrow> within_budget it = (actual_cost it \<le> total_budget it)"
    by (simp add: multi_plan_trip_def plan_trip_itinerary_def failed_response_def Let_def
        split: sum.splits option.splits)
  show "case m_itinerary (multi_plan_trip_stream cached bedrock request) of
      None \<Rightarrow> True
    | Some it \<Rightarrow> within_budget it = (actual_cost it \<le> total_budget it)"
    by (simp add: multi_plan_trip_stream_def plan_trip_stream_itinerary_def failed_response_def
        Let_def split: sum.splits)
  show "case m_itinerary (strands_plan_trip_stream cached bedrock request) of
      None \<Rightarrow> True
    | Some it \<Rightarrow> within_budget it = (actual_cost it \<le> total_budget it)"
    by (simp add: strands_plan_trip_stream_def strands_itinerary_def failed_response_def
        Let_def split: sum.splits)
qed

text \<open>
  The four strategies on the trip to Tokyo: each returns an itinerary; the tool-based one
  meets the budget of 3000 exactly and is within budget, the monolithic one costs 3771 and
  is not.
\<close>

theorem within_budget_iff_cost_le_budget_witness:
  "(\<exists>it. itinerary (single_plan_trip None (Inr []) ample_request) = Some it
         \<and> actual_cost it = 3771 \<and> total_budget it = 3000 \<and> \<not> within_budget it)
   \<and> (\<exists>it. m_itinerary (multi_plan_trip None silent_replies ample_request) = Some it
         \<and> within_budget it = (actual_cost it \<le> total_budget it))
   \<and> (\<exists>it. m_itinerary (multi_plan_trip_stream None (Inr []) ample_request) = Some it
         \<and> within_budget it = (actual_cost it \<le> total_budget it))
   \<and> (\<exists>it. m_itinerary (strands_plan_trip_stream None (Inr []) ample_request) = Some it
         \<and> actual_cost it = 3000 \<and> total_budget it = 3000 \<and> within_budget it)"
proof -
  have a: "actual_cost (parse_agent_response None [] ample_request) = 3771"
    by code_simp
  have b: "total_budget (parse_agent_response None [] ample_request) = 3000"
    by code_simp
  have c: "itinerary (single_plan_trip None (Inr []) ample_request)
             = Some (parse_agent_response None [] ample_request)"
    by (simp add: single_plan_trip_def Let_def)
  have d: "m_itinerary (multi_plan_trip None silent_replies ample_request) \<noteq> None"
    by code_simp
  have e: "m_itinerary (multi_plan_trip_stream None (Inr []) ample_request) \<noteq> None"
    by (simp add: multi_plan_trip_stream_def Let_def)
  have f: "m_itinerary (strands_plan_trip_stream None (Inr []) ample_request)
             = Some (strands_itinerary None ample_request)"
    by (simp add: strands_plan_trip_stream_def)
  have g: "actual_cost (strands_itinerary None ample_request) = 3000"
    by code_simp
  have h: "total_budget (strands_itinerary None ample_request) = 3000"
    by code_simp
  show ?thesis
    using within_budget_iff_cost_le_budget [of None "Inr []" ample_request silent_replies]
      a b c d e f g h
    by auto
qed

section \<open>Budget shortfall\<close>

text \<open>
  What the monolithic strategy and the synchronous specialist-routed \<open>plan_trip\<close> do when
  the flight, hotel and activity costs exceed the budget.
\<close>

lemma monolithic_food_misc:
  "food (cost_breakdown (parse_agent_response cached text request))
     = calculate_daily_food_budget (duration_days request) (hotel_preference request)
   \<and> misc (cost_breakdown (parse_agent_response cached text request))
     = calculate_misc_costs (duration_days request)"
  by (simp add: parse_agent_response_def Let_def)

lemma daily_rates_nonneg:
  "0 \<le> d \<Longrightarrow> 0 \<le> calculate_daily_food_budget d level \<and> 0 \<le> calculate_misc_costs d"
  by (simp add: calculate_daily_food_budget_def calculate_misc_costs_def)

lemma monolithic_shortfall:
  assumes "0 \<le> duration_days request"
    and "budget request
           < cb_flights (cost_breakdown (parse_agent_response cached text request))
             + accommodation (cost_breakdown (parse_agent_response cached text request))
             + cb_activities (cost_breakdown (parse_agent_response cached text request))"
  shows "0 \<le> food (cost_breakdown (parse_agent_response cached text request))
       \<and> 0 \<le> misc (cost_breakdown (parse_agent_response cached text request))
       \<and> \<not> within_budget (parse_agent_response cached text request)"
proof -
  let ?f = "calculate_daily_food_budget (duration_days request) (hotel_preference request)"
  let ?m = "calculate_misc_costs (duration_days request)"
  have nonneg: "0 \<le> ?f \<and> 0 \<le> ?m"
    using assms(1) by (rule daily_rates_nonneg)
  then show ?thesis
    using assms(2) by (simp add: parse_agent_response_def Let_def)
qed

lemma plan_trip_fallback:
  assumes "budget request
             - (flight_cost_of sf request + hotel_cost_of sh + activities_cost_of acts request)
           \<le> 0"
  shows "food (cost_breakdown (plan_trip_itinerary request sf sh acts))
           = budget request * (15 / 100)
       \<and> misc (cost_breakdown (plan_trip_itinerary request sf sh acts))
           = budget request * (10 / 100)"
  using assms by (simp add: plan_trip_itinerary_def Let_def)

lemma plan_trip_shortfall:
  assumes "0 < budget request"
    and "budget request
           - (flight_cost_of sf request + hotel_cost_of sh + activities_cost_of acts request)
         < 0"
  shows "0 \<le> food (cost_breakdown (plan_trip_itinerary request sf sh acts))
       \<and> 0 \<le> misc (cost_breakdown (plan_trip_itinerary request sf sh acts))
       \<and> \<not> within_budget (plan_trip_itinerary request sf sh acts)"
  using assms by (simp add: plan_trip_itinerary_def Let_def)


text \<open>
  C1. The claim: whenever \<open>remaining = total_budget - (flight_cost + hotel_cost +
  activities_cost)\<close> is negative, both allocator modes return non-negative food and misc
  values and the itinerary has \<open>within_budget = False\<close>. The monolithic strategy and
  \<open>plan_trip\<close> do so (\<open>monolithic_shortfall\<close>, \<open>plan_trip_shortfall\<close>). The
  \<open>calculate_budget_breakdown\<close> tool and the specialist-routed \<open>plan_trip_stream\<close> split
  the remainder without testing its sign: with a budget of 1000 and costs of 800, 300 and
  100 the tool returns food \<open>-120\<close>, misc \<open>-80\<close> and \<open>within_budget = True\<close>, and
  the streamed itinerary of the Tokyo trip on a budget of 1000 has food \<open>-597.6\<close>, misc
  \<open>-398.4\<close> and \<open>within_budget = True\<close>.
\<close>

theorem split_shortfall_negative_food_misc:
  "bb_food (calculate_budget_breakdown 1000 800 300 100) = - 120
   \<and> bb_misc (calculate_budget_breakdown 1000 800 300 100) = - 80
   \<and> bb_within_budget (calculate_budget_breakdown 1000 800 300 100)
   \<and> m_itinerary (multi_plan_trip_stream None (Inr []) shortfall_request)
       = Some (plan_trip_stream_itinerary shortfall_request
                 (Some (tokyo_flights ! 0))
                 (Some ((tokyo_hotels ! 0)\<lparr>total_price := 600\<rparr>))
                 (take 2 (dict_get tokyo_activities ''sightseeing'' [])))
   \<and> cost_breakdown (plan_trip_stream_itinerary shortfall_request
                 (Some (tokyo_flights ! 0))
                 (Some ((tokyo_hotels ! 0)\<lparr>total_price := 600\<rparr>))
                 (take 2 (dict_get tokyo_activities ''sightseeing'' [])))
       = \<lparr>cb_flights = 1300, accommodation = 600, cb_activities = 96,
          food = - (2988 / 5), misc = - (1992 / 5)\<rparr>
   \<and> within_budget (plan_trip_stream_itinerary shortfall_request
                 (Some (tokyo_flights ! 0))
                 (Some ((tokyo_hotels ! 0)\<lparr>total_price := 600\<rparr>))
                 (take 2 (dict_get tokyo_activities ''sightseeing'' [])))"
  by code_simp

text \<open>
  C2. The claim: whenever \<open>remaining \<le> 0\<close>, the monolithic strategy takes food from the
  daily rate of the preference tier times the duration and misc from the flat daily rate,
  and the specialist-routed and tool-based strategies set \<open>food = total_budget * 0.15\<close>
  and \<open>misc = total_budget * 0.10\<close>. The monolithic strategy and \<open>plan_trip\<close> do so
  (\<open>monolithic_food_misc\<close>, \<open>plan_trip_fallback\<close>). The tool-based strategy has no
  fallback: for the Tokyo trip on a budget of 1000 the remainder is \<open>-996\<close> and its
  itinerary has food \<open>-597.6\<close> and misc \<open>-398.4\<close>, not 150 and 100.
\<close>

theorem strands_shortfall_no_percentage_fallback:
  "budget shortfall_request
     - (cb_flights (cost_breakdown (strands_itinerary None shortfall_request))
        + accommodation (cost_breakdown (strands_itinerary None shortfall_request))
        + cb_activities (cost_breakdown (strands_itinerary None shortfall_request)))
     = - 996
   \<and> food (cost_breakdown (strands_itinerary None shortfall_request)) = - (2988 / 5)
   \<and> misc (cost_breakdown (strands_itinerary None shortfall_request)) = - (1992 / 5)
   \<and> budget shortfall_request * (15 / 100) = 150
   \<and> budget shortfall_request * (10 / 100) = 100
   \<and> food (cost_breakdown (strands_itinerary None shortfall_request))
       \<noteq> budget shortfall_request * (15 / 100)
   \<and> misc (cost_breakdown (strands_itinerary None shortfall_request))
       \<noteq> budget shortfall_request * (10 / 100)"
  by code_simp

section \<open>Catalog lookup: preference tiers\<close>

lemma sorted_split_le:
  assumes "sorted (map k ys)" "x \<in> set (take n ys)" "y \<in> set (drop n ys)"
  shows "k x \<le> k y"
proof -
  have "sorted (map k (take n ys @ drop n ys))" using assms(1) by simp
  then have "sorted (map k (take n ys) @ map k (drop n ys))" by (simp only: map_append)
  then show ?thesis using assms(2,3) by (auto simp: sorted_append)
qed

lemma cheapest_first:
  "x \<in> set (take n (sort_key k xs)) \<Longrightarrow> y \<in> set (drop n (sort_key k xs)) \<Longrightarrow> k x \<le> k y"
  by (rule sorted_split_le [OF sorted_sort_key])

lemma sorted_reverse_desc: "sorted (rev (map k (sorted_reverse k xs)))"
  by (simp add: sorted_reverse_def rev_map [symmetric])

lemma dearest_first:
  assumes "x \<in> set (take n (sorted_reverse k xs))" "y \<in> set (drop n (sorted_reverse k xs))"
  shows "k y \<le> k x"
proof -
  let ?ys = "sorted_reverse k xs"
  have "sorted (rev (map k (take n ?ys @ drop n ?ys)))"
    using sorted_reverse_desc [of k xs] by simp
  then have "sorted (rev (map k (drop n ?ys)) @ rev (map k (take n ?ys)))"
    by (simp only: map_append rev_append)
  then show ?thesis using assms by (auto simp: sorted_append)
qed

lemma mset_sorted_reverse: "mset (sorted_reverse k xs) = mset xs"
  by (simp add: sorted_reverse_def)

text \<open>Every slice \<open>[i:i+m]\<close> of a list sorted by price is itself sorted by price.\<close>

lemma slice_sorted: "sorted (map k (take m (drop i (sort_key k xs))))"
proof -
  have "sorted (map k (sort_key k xs))" by (rule sorted_sort_key)
  then have "sorted (drop i (map k (sort_key k xs)))" by (rule sorted_wrt_drop)
  then have "sorted (take m (drop i (map k (sort_key k xs))))" by (rule sorted_wrt_take)
  then show ?thesis by (simp add: take_map drop_map)
qed

text \<open>
  With a cached entry for the city the hybrid service applies cut-offs of its own: three
  items instead of two, a price threshold for luxury flights, and the slice \<open>[2:5]\<close>.
\<close>

lemma hybrid_cached_flights:
  assumes "cached_city cached (dest_key d) = Some entry" and "cd_flights entry \<noteq> []"
  shows "hybrid_get_flights cached d (Some ''luxury'')
           = filter (\<lambda>f. price f > 1000) (cd_flights entry)"
    and "hybrid_get_flights cached d (Some ''budget'')
           = take 3 (sort_key price (cd_flights entry))"
    and "p \<noteq> Some ''luxury'' \<Longrightarrow> p \<noteq> Some ''budget'' \<Longrightarrow>
         hybrid_get_flights cached d p = cd_flights entry"
  using assms by (simp_all add: hybrid_get_flights_def)

text \<open>
  C6. The claim: for every destination, the lookup of flights and of hotels returns, for
  \<open>budget\<close>, the 2 cheapest items of the price-sorted list, for \<open>luxury\<close> the 2 most
  expensive, and for the default \<open>mid-range\<close> a fixed middle slice of the price-sorted
  list. It fails for flights: any preference other than \<open>budget\<close> and \<open>luxury\<close> returns
  the destination's whole flight list in table order, which for Tokyo is not sorted by
  price and so is no slice of the price-sorted list (\<open>slice_sorted\<close>).
\<close>

theorem mid_range_flights_counterexample:
  "get_flights ''Tokyo, Japan'' (Some ''mid-range'') = tokyo_flights
   \<and> map price (get_flights ''Tokyo, Japan'' (Some ''mid-range'')) = [650, 720, 580, 1250]
   \<and> map price (sort_key price tokyo_flights) = [580, 650, 720, 1250]
   \<and> \<not> sorted (map price (get_flights ''Tokyo, Japan'' (Some ''mid-range'')))"
  by code_simp

text \<open>
  C6, amended. For every destination, the static-table lookup returns: for \<open>budget\<close>, the
  first 2 items of the list sorted by ascending price, none dearer than any item left out;
  for \<open>luxury\<close>, the first 2 items of the list sorted by descending price, none cheaper
  than any item left out; for any other preference, hotels are the slice \<open>[1:3]\<close> of the
  list sorted by ascending nightly price, and flights are the destination's whole list in
  table order. The hybrid service returns exactly this when it has no cached entry for the
  city.
\<close>

theorem catalog_preference_slices:
  "get_flights d (Some ''budget'') = take 2 (sort_key price (catalog_flights d))
   \<and> (\<forall>x \<in> set (get_flights d (Some ''budget'')).
        \<forall>y \<in> set (drop 2 (sort_key price (catalog_flights d))). price x \<le> price y)
   \<and> get_flights d (Some ''luxury'') = take 2 (sorted_reverse price (catalog_flights d))
   \<and> (\<forall>x \<in> set (get_flights d (Some ''luxury'')).
        \<forall>y \<in> set (drop 2 (sorted_reverse price (catalog_flights d))). price y \<le> price x)
   \<and> (p \<noteq> Some ''budget'' \<and> p \<noteq> Some ''luxury'' \<longrightarrow> get_flights d p = catalog_flights d)
   \<and> get_hotels d n (Some ''budget'') = take 2 (sort_key price_per_night (catalog_hotels d n))
   \<and> (\<forall>x \<in> set (get_hotels d n (Some ''budget'')).
        \<forall>y \<in> set (drop 2 (sort_key price_per_night (catalog_hotels d n))).
          price_per_night x \<le> price_per_night y)
   \<and> get_hotels d n (Some ''luxury'')
        = take 2 (sorted_reverse price_per_night (catalog_hotels d n))
   \<and> (\<forall>x \<in> set (get_hotels d n (Some ''luxury'')).
        \<forall>y \<in> set (drop 2 (sorted_reverse price_per_night (catalog_hotels d n))).
          price_per_night y \<le> price_per_night x)
   \<and> (p \<noteq> Some ''budget'' \<and> p \<noteq> Some ''luxury'' \<longrightarrow>
        get_hotels d n p = take 2 (drop 1 (sort_key price_per_night (catalog_hotels d n))))
   \<and> (cached_city cached (dest_key d) = None \<longrightarrow>
        hybrid_get_flights cached d p = get_flights d p
      \<and> hybrid_get_hotels cached d n p = get_hotels d n p)"
proof -
  have fb: "get_flights d (Some ''budget'') = take 2 (sort_key price (catalog_flights d))"
    by (simp add: get_flights_def)
  have fl: "get_flights d (Some ''luxury'') = take 2 (sorted_reverse price (catalog_flights d))"
    by (simp add: get_flights_def)
  have hb: "get_hotels d n (Some ''budget'')
              = take 2 (sort_key price_per_night (catalog_hotels d n))"
    by (simp add: get_hotels_def)
  have hl: "get_hotels d n (Some ''luxury'')
              = take 2 (sorted_reverse price_per_night (catalog_hotels d n))"
    by (simp add: get_hotels_def)
  have fm: "p \<noteq> Some ''budget'' \<and> p \<noteq> Some ''luxury'' \<longrightarrow> get_flights d p = catalog_flights d"
    by (simp add: get_flights_def)
  have hm: "p \<noteq> Some ''budget'' \<and> p \<noteq> Some ''luxury'' \<longrightarrow>
        get_hotels d n p = take 2 (drop 1 (sort_key price_per_night (catalog_hotels d n)))"
    by (simp add: get_hotels_def)
  have hy: "cached_city cached (dest_key d) = None \<longrightarrow>
        hybrid_get_flights cached d p = get_flights d p
      \<and> hybrid_get_hotels cached d n p = get_hotels d n p"
    by (simp add: hybrid_get_flights_def hybrid_get_hotels_def)
  show ?thesis
    unfolding fb fl hb hl
    using fm hm hy by (blast intro: cheapest_first dearest_first)
qed

theorem catalog_preference_slices_witness:
  "map price (get_flights ''Tokyo, Japan'' (Some ''budget'')) = [580, 650]
   \<and> map price (drop 2 (sort_key price (catalog_flights ''Tokyo, Japan''))) = [720, 1250]
   \<and> map price (get_flights ''Tokyo, Japan'' (Some ''luxury'')) = [1250, 720]
   \<and> map price (drop 2 (sorted_reverse price (catalog_flights ''Tokyo, Japan''))) = [650, 580]
   \<and> get_flights ''Tokyo, Japan'' (Some ''mid-range'') = tokyo_flights
   \<and> map price_per_night (get_hotels ''Tokyo, Japan'' 5 (Some ''budget'')) = [85, 120]
   \<and> map price_per_night (get_hotels ''Tokyo, Japan'' 5 (Some ''luxury'')) = [450, 250]
   \<and> map price_per_night (get_hotels ''Tokyo, Japan'' 5 (Some ''mid-range'')) = [120, 150]
   \<and> map total_price (get_hotels ''Tokyo, Japan'' 5 (Some ''mid-range'')) = [600, 750]
   \<and> hybrid_get_flights None ''Tokyo, Japan'' (Some ''mid-range'') = tokyo_flights"
proof -
  have k: "catalog_flights ''Tokyo, Japan'' = tokyo_flights"
    by code_simp
  have s: "map price (sort_key price tokyo_flights) = [580, 650, 720, 1250]"
    "map price (sorted_reverse price tokyo_flights) = [1250, 720, 650, 580]"
    by code_simp+
  have h: "map price_per_night (sort_key price_per_night (catalog_hotels ''Tokyo, Japan'' 5))
             = [85, 120, 150, 250, 450]"
    "map price_per_night (sorted_reverse price_per_night (catalog_hotels ''Tokyo, Japan'' 5))
             = [450, 250, 150, 120, 85]"
    "map total_price (sort_key price_per_night (catalog_hotels ''Tokyo, Japan'' 5))
             = [425, 600, 750, 1250, 2250]"
    by code_simp+
  have p: "Some ''mid-range'' \<noteq> Some ''budget'' \<and> Some ''mid-range'' \<noteq> Some ''luxury''"
    by simp
  have c: "cached_city None (dest_key ''Tokyo, Japan'') = None"
    by (simp add: cached_city_def)
  show ?thesis
    using catalog_preference_slices [where d = "''Tokyo, Japan''" and n = 5
        and p = "Some ''mid-range''" and cached = None] k s h p c
    by (simp add: take_map [symmetric] drop_map [symmetric])
qed

section \<open>Catalog lookup: destination key and fallback\<close>








section \<open>Budget overrun in the responses\<close>

text \<open>
  C8. The claim: an itinerary whose \<open>actual_cost\<close> exceeds \<open>total_budget\<close> is surfaced
  only as \<open>within_budget = False\<close> with warnings; the overrun is not in the errors list
  and does not make the status a failure. The monolithic \<open>plan_trip\<close> does the opposite:
  for the Tokyo trip on a budget of 1000 it plans 3771, appends the budget-exceeded message
  to \<open>errors\<close>, leaves \<open>warnings\<close> empty and returns the status \<open>FAILURE\<close>.
\<close>

theorem single_agent_overrun_counterexample:
  "itinerary (single_plan_trip None (Inr []) shortfall_request)
     = Some (parse_agent_response None [] shortfall_request)
   \<and> actual_cost (parse_agent_response None [] shortfall_request) = 3771
   \<and> total_budget (parse_agent_response None [] shortfall_request) = 1000
   \<and> errors (single_plan_trip None (Inr []) shortfall_request) = [Budget_exceeded 3771 1000]
   \<and> warnings (single_plan_trip None (Inr []) shortfall_request) = []
   \<and> status (single_plan_trip None (Inr []) shortfall_request) = FAILURE"
  by code_simp

text \<open>
  C8, amended. When the planned \<open>actual_cost\<close> exceeds \<open>total_budget\<close>, the itinerary has
  \<open>within_budget = False\<close>; the monolithic strategy reports the overrun as the first entry
  of the errors list and returns the status \<open>FAILURE\<close> with \<open>success = True\<close>; the
  specialist-routed \<open>plan_trip\<close> returns \<open>success = True\<close> and the status \<open>SUCCESS\<close>,
  its response having no list of errors or warnings.
\<close>

theorem overrun_reporting:
  "(itinerary (single_plan_trip cached bedrock request) = Some it
      \<and> total_budget it < actual_cost it \<longrightarrow>
        \<not> within_budget it
      \<and> success (single_plan_trip cached bedrock request)
      \<and> status (single_plan_trip cached bedrock request) = FAILURE
      \<and> take 1 (errors (single_plan_trip cached bedrock request))
           = [Budget_exceeded (actual_cost it) (total_budget it)])
   \<and> (m_itinerary (multi_plan_trip cached replies request) = Some it'
      \<and> total_budget it' < actual_cost it' \<longrightarrow>
        \<not> within_budget it'
      \<and> m_success (multi_plan_trip cached replies request)
      \<and> m_status (multi_plan_trip cached replies request) = SUCCESS
      \<and> m_failure (multi_plan_trip cached replies request) = None)"
proof (intro conjI impI)
  assume a: "itinerary (single_plan_trip cached bedrock request) = Some it
      \<and> total_budget it < actual_cost it"
  then obtain reply where b: "bedrock = Inr reply"
    by (cases bedrock) (simp_all add: single_plan_trip_def)
  with a have it: "it = parse_agent_response cached reply request"
    by (simp add: single_plan_trip_def Let_def)
  have w: "within_budget it = (actual_cost it \<le> total_budget it)"
    by (simp add: it parse_agent_response_def Let_def)
  show "\<not> within_budget it" using a w by simp
  show "success (single_plan_trip cached bedrock request)"
    by (simp add: b single_plan_trip_def Let_def)
  show "status (single_plan_trip cached bedrock request) = FAILURE"
    using a by (simp add: b it [symmetric] single_plan_trip_def Let_def)
  show "take 1 (errors (single_plan_trip cached bedrock request))
           = [Budget_exceeded (actual_cost it) (total_budget it)]"
    using a by (simp add: b it [symmetric] single_plan_trip_def Let_def)
next
  assume a: "m_itinerary (multi_plan_trip cached replies request) = Some it'
      \<and> total_budget it' < actual_cost it'"
  show "\<not> within_budget it'"
    using a
    by (auto simp add: multi_plan_trip_def plan_trip_itinerary_def failed_response_def Let_def
        split: sum.splits option.splits if_splits)
  show "m_success (multi_plan_trip cached replies request)"
    using a
    by (auto simp add: multi_plan_trip_def failed_response_def Let_def
        split: sum.splits option.splits if_splits)
  show "m_status (multi_plan_trip cached replies request) = SUCCESS"
    using a
    by (auto simp add: multi_plan_trip_def failed_response_def Let_def
        split: sum.splits option.splits if_splits)
  show "m_failure (multi_plan_trip cached replies request) = None"
    using a
    by (auto simp add: multi_plan_trip_def failed_response_def Let_def
        split: sum.splits option.splits if_splits)
qed

theorem overrun_reporting_witness:
  "itinerary (single_plan_trip None (Inr []) shortfall_request)
     = Some (parse_agent_response None [] shortfall_request)
   \<and> total_budget (parse_agent_response None [] shortfall_request)
       < actual_cost (parse_agent_response None [] shortfall_request)
   \<and> status (single_plan_trip None (Inr []) shortfall_request) = FAILURE
   \<and> take 1 (errors (single_plan_trip None (Inr []) shortfall_request))
       = [Budget_exceeded 3771 1000]
   \<and> m_itinerary (multi_plan_trip None silent_replies shortfall_request)
       = Some (plan_trip_itinerary shortfall_request (Some (tokyo_flights ! 0))
                 (Some ((tokyo_hotels ! 0)\<lparr>total_price := 600\<rparr>))
                 (take 2 (dict_get tokyo_activities ''sightseeing'' [])))
   \<and> actual_cost (plan_trip_itinerary shortfall_request (Some (tokyo_flights ! 0))
                 (Some ((tokyo_hotels ! 0)\<lparr>total_price := 600\<rparr>))
                 (take 2 (dict_get tokyo_activities ''sightseeing'' []))) = 2246
   \<and> m_status (multi_plan_trip None silent_replies shortfall_request) = SUCCESS"
proof -
  let ?it = "parse_agent_response None [] shortfall_request"
  let ?it' = "plan_trip_itinerary shortfall_request (Some (tokyo_flights ! 0))
                 (Some ((tokyo_hotels ! 0)\<lparr>total_price := 600\<rparr>))
                 (take 2 (dict_get tokyo_activities ''sightseeing'' []))"
  have a: "itinerary (single_plan_trip None (Inr []) shortfall_request) = Some ?it"
    by (simp add: single_plan_trip_def Let_def)
  have b: "actual_cost ?it = 3771" "total_budget ?it = 1000"
    by code_simp+
  have c: "m_itinerary (multi_plan_trip None silent_replies shortfall_request) = Some ?it'"
    by code_simp
  have d: "actual_cost ?it' = 2246" "total_budget ?it' = 1000"
    by code_simp+
  show ?thesis
    using overrun_reporting [where cached = None and bedrock = "Inr []"
        and request = shortfall_request and it = ?it and replies = silent_replies
        and it' = ?it'] a b c d
    by simp
qed

section \<open>Payment authorization\<close>

lemma build_cart_any_state:
  "build_cart_mandate nonces intent request s = Inr (cart, s') \<Longrightarrow>
   build_cart_mandate nonces intent' request t
     = Inr (cart\<lparr>cm_intent_id := intent_id intent'\<rparr>,
            log_event ''AP2 Cart Mandate'' ''Step 2/5: Cart created'' t)"
  by (auto simp add: build_cart_mandate_def Let_def split: if_splits)

text \<open>An authorized mandate is executed: the wallet is charged the cart total.\<close>

lemma authorized_flow_charges_wallet:
  assumes "build_cart_mandate nonces intent request s = Inr (cart, s')"
    and "cm_total cart \<le> mock_wallet_balance self"
  shows "mock_wallet_balance (snd (plan_trip_with_ap2_stream nonces request self))
           = mock_wallet_balance self - cm_total cart"
    and "list_ex is_transaction_log (fst (plan_trip_with_ap2_stream nonces request self))"
  using assms build_cart_any_state [of nonces intent request s cart s']
  by (simp_all add: plan_trip_with_ap2_stream_def create_intent_mandate_def flush_logs_def
      log_event_def request_payment_authorization_def execute_transaction_def Let_def)

text \<open>
  C9. In the mandate-based strategy the payment mandate's status is \<open>authorized\<close> if and
  only if the cart total is at most the mock wallet balance; when the status is not
  \<open>authorized\<close> the flow ends with a single terminal error event after its log events,
  the transaction step does not run, and the wallet balance is unchanged.
\<close>

theorem authorization_iff_balance_covers_total:
  "(pm_status (fst (request_payment_authorization nonces cart self)) = ''authorized'')
     = (cm_total cart \<le> mock_wallet_balance self)
   \<and> (build_cart_mandate nonces intent request s = Inr (cart, s')
      \<and> pm_status (fst (request_payment_authorization nonces cart self)) \<noteq> ''authorized''
      \<longrightarrow>
        fst (plan_trip_with_ap2_stream nonces request self)
          = [Log_event ''AP2 Protocol'' ''Initiating AP2 Autonomous Payment Protocol'',
             Log_event ''AP2 Intent Mandate'' ''Step 1/5: Intent declared'',
             Log_event ''AP2 Cart Mandate'' ''Step 2/5: Cart created'',
             Log_event ''AP2 Payment Mandate'' ''Step 3/5: Payment denied'',
             Error_event ''Payment authorization denied: Insufficient funds'']
      \<and> \<not> list_ex is_transaction_log (fst (plan_trip_with_ap2_stream nonces request self))
      \<and> mock_wallet_balance (snd (plan_trip_with_ap2_stream nonces request self))
          = mock_wallet_balance self)"
proof (intro conjI impI)
  show st: "(pm_status (fst (request_payment_authorization nonces cart self)) = ''authorized'')
     = (cm_total cart \<le> mock_wallet_balance self)"
    by (simp add: request_payment_authorization_def Let_def)
  assume a: "build_cart_mandate nonces intent request s = Inr (cart, s')
      \<and> pm_status (fst (request_payment_authorization nonces cart self)) \<noteq> ''authorized''"
  then have denied: "\<not> cm_total cart \<le> mock_wallet_balance self"
    using st by simp
  have ev: "fst (plan_trip_with_ap2_stream nonces request self)
          = [Log_event ''AP2 Protocol'' ''Initiating AP2 Autonomous Payment Protocol'',
             Log_event ''AP2 Intent Mandate'' ''Step 1/5: Intent declared'',
             Log_event ''AP2 Cart Mandate'' ''Step 2/5: Cart created'',
             Log_event ''AP2 Payment Mandate'' ''Step 3/5: Payment denied'',
             Error_event ''Payment authorization denied: Insufficient funds'']"
    using denied build_cart_any_state [of nonces intent request s cart s'] a
    by (simp add: plan_trip_with_ap2_stream_def create_intent_mandate_def flush_logs_def
        log_event_def request_payment_authorization_def Let_def)
  show "fst (plan_trip_with_ap2_stream nonces request self)
          = [Log_event ''AP2 Protocol'' ''Initiating AP2 Autonomous Payment Protocol'',
             Log_event ''AP2 Intent Mandate'' ''Step 1/5: Intent declared'',
             Log_event ''AP2 Cart Mandate'' ''Step 2/5: Cart created'',
             Log_event ''AP2 Payment Mandate'' ''Step 3/5: Payment denied'',
             Error_event ''Payment authorization denied: Insufficient funds'']"
    by (rule ev)
  show "\<not> list_ex is_transaction_log (fst (plan_trip_with_ap2_stream nonces request self))"
    by (simp add: ev)
  show "mock_wallet_balance (snd (plan_trip_with_ap2_stream nonces request self))
          = mock_wallet_balance self"
    using denied build_cart_any_state [of nonces intent request s cart s'] a
    by (simp add: plan_trip_with_ap2_stream_def create_intent_mandate_def flush_logs_def
        log_event_def request_payment_authorization_def Let_def)
qed

theorem authorization_iff_balance_covers_total_witness:
  "build_cart_mandate demo_nonces demo_intent shortfall_request poor_wallet
     = Inr (demo_cart, log_event ''AP2 Cart Mandate'' ''Step 2/5: Cart created'' poor_wallet)
   \<and> pm_status (fst (request_payment_authorization demo_nonces demo_cart poor_wallet))
       = ''denied''
   \<and> fst (plan_trip_with_ap2_stream demo_nonces shortfall_request poor_wallet)
       = [Log_event ''AP2 Protocol'' ''Initiating AP2 Autonomous Payment Protocol'',
          Log_event ''AP2 Intent Mandate'' ''Step 1/5: Intent declared'',
          Log_event ''AP2 Cart Mandate'' ''Step 2/5: Cart created'',
          Log_event ''AP2 Payment Mandate'' ''Step 3/5: Payment denied'',
          Error_event ''Payment authorization denied: Insufficient funds'']
   \<and> mock_wallet_balance (snd (plan_trip_with_ap2_stream demo_nonces shortfall_request
         poor_wallet)) = 500"
proof -
  have c: "build_cart_mandate demo_nonces demo_intent shortfall_request poor_wallet
     = Inr (demo_cart, log_event ''AP2 Cart Mandate'' ''Step 2/5: Cart created'' poor_wallet)"
    by code_simp
  have d: "pm_status (fst (request_payment_authorization demo_nonces demo_cart poor_wallet))
             = ''denied''"
    by code_simp
  have w: "mock_wallet_balance poor_wallet = 500"
    by (simp add: poor_wallet_def)
  show ?thesis
    using authorization_iff_balance_covers_total [where nonces = demo_nonces
        and cart = demo_cart and self = poor_wallet and intent = demo_intent
        and request = shortfall_request and s = poor_wallet
        and s' = "log_event ''AP2 Cart Mandate'' ''Step 2/5: Cart created'' poor_wallet"]
      c d w
    by simp
qed

section \<open>The 60/40 split: exact and binary64 arithmetic\<close>


lemma round_half_even_nonneg: "0 \<le> x \<Longrightarrow> 0 \<le> round_half_even x"
proof -
  assume "0 \<le> x"
  then have "0 \<le> \<lfloor>x\<rfloor>" by simp
  then show ?thesis by (simp add: round_half_even_def Let_def)
qed

text \<open>\<open>floor_log2\<close> is the exponent: it brackets a positive \<open>x\<close> between two powers of 2.\<close>

lemma floor_log2_lower:
  assumes "0 < x"
  shows "2 powi floor_log2 x \<le> x"
proof (cases "1 \<le> x")
  case True
  define n where "n = \<lfloor>x\<rfloor>"
  have n: "0 < n" using True by (simp add: n_def)
  have b: "1 \<le> bitlen n" using n by (simp add: bitlen_alt_def)
  have "(2::int) ^ nat (bitlen n - 1) \<le> n"
    using bitlen_bounds [OF n] by simp
  then have "rat_of_int (2 ^ nat (bitlen n - 1)) \<le> of_int n"
    by (simp only: of_int_le_iff)
  then have "(2::rat) ^ nat (bitlen n - 1) \<le> of_int n"
    by simp
  also have "\<dots> \<le> x" by (simp add: n_def)
  finally have "(2::rat) ^ nat (bitlen n - 1) \<le> x" .
  moreover have "floor_log2 x = bitlen n - 1"
    using True by (simp add: floor_log2_def n_def)
  moreover have "(2::rat) powi (bitlen n - 1) = 2 ^ nat (bitlen n - 1)"
    using b by (simp add: power_int_def)
  ultimately show ?thesis by simp
next
  case False
  define c where "c = \<lceil>1 / x\<rceil>"
  define k where "k = bitlen (c - 1)"
  have "1 < 1 / x" using False assms by simp
  then have c: "0 < c - 1" unfolding c_def by linarith
  have k: "1 \<le> k" using c by (simp add: k_def bitlen_alt_def)
  have "c - 1 < 2 ^ nat k"
    using bitlen_bounds [OF c] by (simp add: k_def)
  then have "c \<le> 2 ^ nat k" by simp
  then have "rat_of_int c \<le> of_int (2 ^ nat k)"
    by (simp only: of_int_le_iff)
  then have "rat_of_int c \<le> 2 ^ nat k" by simp
  moreover have "1 / x \<le> of_int c" by (simp add: c_def)
  ultimately have "1 / x \<le> 2 ^ nat k" by linarith
  then have "1 \<le> 2 ^ nat k * x"
    using assms by (simp add: field_simps)
  then have "1 / 2 ^ nat k \<le> x"
    by (simp add: field_simps)
  moreover have "floor_log2 x = - k"
    using False by (simp add: floor_log2_def c_def k_def)
  moreover have "(2::rat) powi (- k) = 1 / 2 ^ nat k"
    using k by (simp add: power_int_def field_simps)
  ultimately show ?thesis by simp
qed

lemma floor_log2_upper:
  assumes "0 < x"
  shows "x < 2 powi (floor_log2 x + 1)"
proof (cases "1 \<le> x")
  case True
  define n where "n = \<lfloor>x\<rfloor>"
  have n: "0 < n" using True by (simp add: n_def)
  have b: "1 \<le> bitlen n" using n by (simp add: bitlen_alt_def)
  have "n < 2 ^ nat (bitlen n)"
    using bitlen_bounds [OF n] by simp
  then have "n + 1 \<le> 2 ^ nat (bitlen n)" by simp
  then have "rat_of_int (n + 1) \<le> of_int (2 ^ nat (bitlen n))"
    by (simp only: of_int_le_iff)
  then have "rat_of_int n + 1 \<le> 2 ^ nat (bitlen n)" by simp
  moreover have "x < of_int n + 1" unfolding n_def by linarith
  ultimately have "x < 2 ^ nat (bitlen n)" by linarith
  moreover have "floor_log2 x + 1 = bitlen n"
    using True by (simp add: floor_log2_def n_def)
  moreover have "(2::rat) powi (bitlen n) = 2 ^ nat (bitlen n)"
    using b by (simp add: power_int_def)
  ultimately show ?thesis by simp
next
  case False
  define c where "c = \<lceil>1 / x\<rceil>"
  define k where "k = bitlen (c - 1)"
  have "1 < 1 / x" using False assms by simp
  then have c: "0 < c - 1" unfolding c_def by linarith
  have k: "1 \<le> k" using c by (simp add: k_def bitlen_alt_def)
  have "2 ^ nat (k - 1) \<le> c - 1"
    using bitlen_bounds [OF c] by (simp add: k_def)
  then have "rat_of_int (2 ^ nat (k - 1)) \<le> of_int (c - 1)"
    by (simp only: of_int_le_iff)
  then have "(2::rat) ^ nat (k - 1) \<le> of_int c - 1" by simp
  moreover have "rat_of_int c - 1 < 1 / x" unfolding c_def by linarith
  ultimately have "2 ^ nat (k - 1) < 1 / x" by linarith
  then have "2 ^ nat (k - 1) * x < 1"
    using assms by (simp add: field_simps)
  then have "x < 1 / 2 ^ nat (k - 1)"
    by (simp add: field_simps)
  moreover have "floor_log2 x + 1 = - (k - 1)"
    using False by (simp add: floor_log2_def c_def k_def)
  moreover have "(2::rat) powi (- (k - 1)) = 1 / 2 ^ nat (k - 1)"
    using k by (simp add: power_int_def field_simps)
  ultimately show ?thesis by simp
qed





















text \<open>The significand that \<open>binary64\<close> rounds has exactly 53 bits before the point.\<close>


lemma significand_range:
  assumes "x \<noteq> 0"
  shows "2 ^ 52 \<le> \<bar>x\<bar> / 2 powi (floor_log2 \<bar>x\<bar> - 52)"
    and "\<bar>x\<bar> / 2 powi (floor_log2 \<bar>x\<bar> - 52) < 2 ^ 53"
proof -
  define a where "a = \<bar>x\<bar>"
  define p :: rat where "p = 2 powi floor_log2 a"
  have a: "0 < a" using assms by (simp add: a_def)
  have p: "0 < p" by (simp add: p_def)
  have lo: "p \<le> a" unfolding p_def using a by (rule floor_log2_lower)
  have "a < 2 powi (floor_log2 a + 1)" using a by (rule floor_log2_upper)
  then have hi: "a < 2 * p" by (simp add: p_def power_int_add)
  have u: "2 powi (floor_log2 a - 52) = p / 2 ^ 52"
    by (simp add: p_def power_int_diff)
  have e: "a / (p / 2 ^ 52) = a / p * 2 ^ 52"
    by simp
  have "1 \<le> a / p" using lo p by simp
  then have "1 * 2 ^ 52 \<le> a / p * 2 ^ 52"
    by (intro mult_right_mono) simp_all
  then show "2 ^ 52 \<le> \<bar>x\<bar> / 2 powi (floor_log2 \<bar>x\<bar> - 52)"
    unfolding a_def [symmetric] u e by (simp only: mult_1)
  have "a / p < 2" using hi p by (simp add: field_simps)
  then have "a / p * 2 ^ 52 < 2 * 2 ^ 52"
    by (intro mult_strict_right_mono) simp_all
  also have "(2::rat) * 2 ^ 52 = 2 ^ 53"
    by simp
  finally show "\<bar>x\<bar> / 2 powi (floor_log2 \<bar>x\<bar> - 52) < 2 ^ 53"
    unfolding a_def [symmetric] u e .
qed










end
